theory Spec2Isabelle
  imports Main "HOL-Library.Word"
begin

unbundle bit_operations_syntax

section \<open>Library functions the package relies on\<close>

text \<open>
  The package \<^verbatim>\<open>lmpsdat\<close> works on byte slices and strings of the Go standard library.
  A Go \<^verbatim>\<open>string\<close> or \<^verbatim>\<open>[]byte\<close> is a \<^typ>\<open>string\<close> here: a list of bytes.  The library
  functions the package calls are written out below, as far as the package uses them.
\<close>

subsection \<open>bytes and strings\<close>

text \<open>\<^verbatim>\<open>bytes.HasPrefix(s, prefix)\<close>.\<close>

fun HasPrefix :: "string \<Rightarrow> string \<Rightarrow> bool" where
  "HasPrefix s [] = True"
| "HasPrefix [] (p # ps) = False"
| "HasPrefix (c # cs) (p # ps) = (c = p \<and> HasPrefix cs ps)"

text \<open>\<^verbatim>\<open>strings.HasSuffix(s, suffix)\<close>.\<close>

definition HasSuffix :: "string \<Rightarrow> string \<Rightarrow> bool" where
  "HasSuffix s suffix = HasPrefix (rev s) (rev suffix)"

text \<open>
  \<^verbatim>\<open>unicode.IsSpace\<close> on the rune that starts a byte string: the number of bytes of that
  rune when it is a white space, 0 otherwise.  The white-space runes are U+0009 to U+000D,
  U+0020, U+0085, U+00A0, U+1680, U+2000 to U+200A, U+2028, U+2029, U+202F, U+205F and
  U+3000, in their UTF-8 encoding.  No encoding of a white-space rune occurs inside the
  encoding of another rune, and Go steps over an invalid byte one byte at a time, so looking
  for these byte patterns position by position finds the runes Go's decoder finds.
\<close>

fun isSpaceLen :: "string \<Rightarrow> nat" where
  "isSpaceLen [] = 0"
| "isSpaceLen (c # cs) =
    (if c = CHR 0x09 \<or> c = CHR 0x0A \<or> c = CHR 0x0B \<or> c = CHR 0x0C \<or> c = CHR 0x0D
        \<or> c = CHR 0x20 then 1
     else if c = CHR 0xC2 then
       (if HasPrefix cs [CHR 0x85] \<or> HasPrefix cs [CHR 0xA0] then 2 else 0)
     else if c = CHR 0xE1 then
       (if HasPrefix cs [CHR 0x9A, CHR 0x80] then 3 else 0)
     else if c = CHR 0xE2 then
       (case cs of
          d # e # _ \<Rightarrow>
            if d = CHR 0x80 \<and>
               ((0x80 \<le> (of_char e :: nat) \<and> (of_char e :: nat) \<le> 0x8A)
                \<or> e = CHR 0xA8 \<or> e = CHR 0xA9 \<or> e = CHR 0xAF) then 3
            else if d = CHR 0x81 \<and> e = CHR 0x9F then 3
            else 0
        | _ \<Rightarrow> 0)
     else if c = CHR 0xE3 then
       (if HasPrefix cs [CHR 0x80, CHR 0x80] then 3 else 0)
     else 0)"

declare isSpaceLen.simps [simp del]

text \<open>\<^verbatim>\<open>bytes.TrimLeftFunc(s, unicode.IsSpace)\<close>.\<close>

fun TrimLeftSpace :: "string \<Rightarrow> string" where
  "TrimLeftSpace [] = []"
| "TrimLeftSpace (c # cs) =
    (let n = isSpaceLen (c # cs)
     in if n = 0 then c # cs else TrimLeftSpace (drop (n - 1) cs))"

text \<open>
  The same test from the right end, for \<^verbatim>\<open>strings.TrimSpace\<close>: the argument is the
  reversed string, so the patterns are the reversed encodings.
\<close>

fun isSpaceLenRev :: "string \<Rightarrow> nat" where
  "isSpaceLenRev [] = 0"
| "isSpaceLenRev (c # cs) =
    (if c = CHR 0x09 \<or> c = CHR 0x0A \<or> c = CHR 0x0B \<or> c = CHR 0x0C \<or> c = CHR 0x0D
        \<or> c = CHR 0x20 then 1
     else if isSpaceLen (rev (take 2 (c # cs))) = 2 then 2
     else if isSpaceLen (rev (take 3 (c # cs))) = 3 then 3
     else 0)"

declare isSpaceLenRev.simps [simp del]

fun TrimLeftSpaceRev :: "string \<Rightarrow> string" where
  "TrimLeftSpaceRev [] = []"
| "TrimLeftSpaceRev (c # cs) =
    (let n = isSpaceLenRev (c # cs)
     in if n = 0 then c # cs else TrimLeftSpaceRev (drop (n - 1) cs))"

definition TrimSpace :: "string \<Rightarrow> string" where
  "TrimSpace s = rev (TrimLeftSpaceRev (rev (TrimLeftSpace s)))"

text \<open>\<^verbatim>\<open>bytes.IndexFunc(s, unicode.IsSpace)\<close>; \<open>None\<close> is Go's \<open>-1\<close>.\<close>

fun IndexSpace :: "string \<Rightarrow> nat option" where
  "IndexSpace [] = None"
| "IndexSpace (c # cs) =
    (if isSpaceLen (c # cs) \<noteq> 0 then Some 0 else map_option Suc (IndexSpace cs))"

text \<open>\<^verbatim>\<open>bytes.IndexRune(s, r)\<close> for an ASCII rune \<open>r\<close>.\<close>

fun IndexRune :: "string \<Rightarrow> char \<Rightarrow> nat option" where
  "IndexRune [] r = None"
| "IndexRune (c # cs) r = (if c = r then Some 0 else map_option Suc (IndexRune cs r))"

text \<open>
  \<^verbatim>\<open>strings.Fields(s)\<close> and \<^verbatim>\<open>bytes.Fields(s)\<close>: the maximal runs of bytes without a
  white-space rune.  \<open>cur\<close> is the field being read, reversed.
\<close>

definition flushField :: "string \<Rightarrow> string list" where
  "flushField cur = (if cur = [] then [] else [rev cur])"

fun FieldsFrom :: "string \<Rightarrow> string \<Rightarrow> string list" where
  "FieldsFrom cur [] = flushField cur"
| "FieldsFrom cur (c # cs) =
    (let n = isSpaceLen (c # cs)
     in if n = 0 then FieldsFrom (c # cur) cs
        else flushField cur @ FieldsFrom [] (drop (n - 1) cs))"

definition Fields :: "string \<Rightarrow> string list" where
  "Fields s = FieldsFrom [] s"

subsection \<open>strconv and fmt\<close>

text \<open>
  Go's \<^verbatim>\<open>int\<close> is taken to be 64 bits wide.  The package only stores, compares and prints
  integers, and counts loop iterations up to a bound it has read, so no arithmetic of the
  package can overflow; integers are \<^typ>\<open>int\<close>, and \<^verbatim>\<open>strconv.Atoi\<close> refuses what does not
  fit in 64 bits.

  \<^verbatim>\<open>strconv.Atoi(s)\<close> accepts an optional sign followed by decimal digits, at least
  one, whose value fits.  It returns an integer and an error; the model returns the integer
  and whether the error is \<^verbatim>\<open>nil\<close>.  With a syntax error the integer is 0, with a range error
  it is the nearest bound.
\<close>

definition isDigit :: "char \<Rightarrow> bool" where
  "isDigit c = (48 \<le> (of_char c :: nat) \<and> (of_char c :: nat) \<le> 57)"

definition digitVal :: "char \<Rightarrow> int" where
  "digitVal c = int (of_char c) - 48"

definition digitsVal :: "string \<Rightarrow> int" where
  "digitsVal ds = foldl (\<lambda>a c. 10 * a + digitVal c) 0 ds"

definition Atoi :: "string \<Rightarrow> int \<times> bool" where
  "Atoi s =
    (let neg = HasPrefix s ''-'';
         ds = (if HasPrefix s ''-'' \<or> HasPrefix s ''+'' then tl s else s)
     in if ds = [] \<or> \<not> list_all isDigit ds then (0, False)
        else let n = (if neg then - digitsVal ds else digitsVal ds)
             in if n < - (2 ^ 63) then (- (2 ^ 63), False)
                else if 2 ^ 63 \<le> n then (2 ^ 63 - 1, False)
                else (n, True))"

text \<open>The verb \<^verbatim>\<open>%d\<close> of \<^verbatim>\<open>fmt\<close>.\<close>

definition digitChar :: "nat \<Rightarrow> char" where
  "digitChar d = ''0123456789'' ! d"

fun showNat :: "nat \<Rightarrow> string" where
  "showNat n = (if n < 10 then [digitChar n] else showNat (n div 10) @ [digitChar (n mod 10)])"

declare showNat.simps [simp del]

definition fmtD :: "int \<Rightarrow> string" where
  "fmtD i = (if i < 0 then CHR ''-'' # showNat (nat (- i)) else showNat (nat i))"

text \<open>
  A \<^verbatim>\<open>float64\<close> is its 64 bits in IEEE 754 binary64.  The package compares floats
  (\<^verbatim>\<open><\<close>, \<^verbatim>\<open>>\<close>), which is defined on the bits below; it reads them with
  \<^verbatim>\<open>strconv.ParseFloat(s, 64)\<close> and prints them with the verb \<^verbatim>\<open>%g\<close>, and these two
  library functions are parameters of the model: \<open>pf\<close> gives the float read and whether
  the error is \<^verbatim>\<open>nil\<close>, \<open>fg\<close> gives the text printed.
\<close>

type_synonym float64 = "64 word"

definition isNaN :: "float64 \<Rightarrow> bool" where
  "isNaN x = (x AND 0x7FF0000000000000 = 0x7FF0000000000000 \<and> x AND 0x000FFFFFFFFFFFFF \<noteq> 0)"

definition f64_rank :: "float64 \<Rightarrow> int" where
  "f64_rank x =
    (if x AND 0x8000000000000000 = 0 then uint x else - uint (x AND 0x7FFFFFFFFFFFFFFF))"

definition f64_less :: "float64 \<Rightarrow> float64 \<Rightarrow> bool" where
  "f64_less a b = (\<not> isNaN a \<and> \<not> isNaN b \<and> f64_rank a < f64_rank b)"

type_synonym ParseFloat = "string \<Rightarrow> float64 \<times> bool"

type_synonym FormatG = "float64 \<Rightarrow> string"

subsection \<open>Errors and panics\<close>

text \<open>
  An error value of the package is \<^verbatim>\<open>key.ErrUnsupported\<close>, a \<^verbatim>\<open>fmt.Errorf\<close> of a format
  string (kept as the text of the format), or a \<^verbatim>\<open>fmt.Errorf\<close> that wraps another error
  with \<^verbatim>\<open>%w\<close>.  \<open>StrconvErr\<close> is the error of \<^verbatim>\<open>strconv\<close>, \<open>ReadErr\<close> the one a reader
  gives, \<open>WriteErr\<close> the one a writer gives.  A run-time panic is \<open>Panic\<close>: it is not a
  returned error, it unwinds through every caller, so it is never wrapped.
\<close>

datatype error =
    ErrUnsupported
  | Errorf string
  | Wrapf string error
  | StrconvErr
  | ReadErr
  | WriteErr
  | Panic string

fun isPanic :: "error \<Rightarrow> bool" where
  "isPanic (Panic p) = True"
| "isPanic e = False"

definition wrapf :: "string \<Rightarrow> error \<Rightarrow> error" where
  "wrapf msg e = (if isPanic e then e else Wrapf msg e)"

text \<open>\<^verbatim>\<open>errors.Is(err, key.ErrUnsupported)\<close>.\<close>

fun isUnsupported :: "error \<Rightarrow> bool" where
  "isUnsupported ErrUnsupported = True"
| "isUnsupported (Wrapf msg e) = isUnsupported e"
| "isUnsupported e = False"

subsection \<open>io.Writer and bufio.Scanner\<close>

text \<open>
  A writer holds what was written to it and the number of calls of \<^verbatim>\<open>Write\<close> it still
  accepts (\<open>None\<close>: all of them).  Every \<^verbatim>\<open>fmt.Fprint\<close>, \<^verbatim>\<open>Fprintf\<close> and \<^verbatim>\<open>Fprintln\<close>
  is one call of \<^verbatim>\<open>Write\<close> with the formatted text.
\<close>

record Writer =
  written :: string
  room :: "nat option"

definition Fprint :: "Writer \<Rightarrow> string \<Rightarrow> error option \<times> Writer" where
  "Fprint w s =
    (case room w of
       None \<Rightarrow> (None, w\<lparr>written := written w @ s\<rparr>)
     | Some 0 \<Rightarrow> (Some WriteErr, w)
     | Some (Suc n) \<Rightarrow> (None, w\<lparr>written := written w @ s, room := Some n\<rparr>))"

text \<open>
  A reader gives a finite byte string and then either the end of the file or an error.
  \<^verbatim>\<open>bufio.NewScanner\<close> splits it with \<^verbatim>\<open>bufio.ScanLines\<close>: lines end at \<^verbatim>\<open>\n\<close>, one
  trailing \<^verbatim>\<open>\r\<close> is dropped, a last line without \<^verbatim>\<open>\n\<close> counts when it is not empty, and
  a line that does not fit the buffer of 65536 bytes stops the scanner with an error.
\<close>

record Reader =
  content :: string
  fails :: bool

definition dropCR :: "string \<Rightarrow> string" where
  "dropCR l = (if l \<noteq> [] \<and> last l = CHR 0x0D then butlast l else l)"

fun ScanLinesFrom :: "string \<Rightarrow> string \<Rightarrow> string list \<times> bool" where
  "ScanLinesFrom cur [] =
    (if cur = [] then ([], False)
     else if 65536 \<le> length cur then ([], True)
     else ([dropCR (rev cur)], False))"
| "ScanLinesFrom cur (c # cs) =
    (if c = CHR 0x0A then
       (if 65536 \<le> length cur then ([], True)
        else (case ScanLinesFrom [] cs of (ls, e) \<Rightarrow> (dropCR (rev cur) # ls, e)))
     else ScanLinesFrom (c # cur) cs)"

text \<open>
  The scanner: the lines not yet read, whether reading stops with an error after them, the
  current line (\<^verbatim>\<open>r.Bytes()\<close>, \<^verbatim>\<open>r.Text()\<close>) and the error met (\<^verbatim>\<open>r.Err() != nil\<close>).
\<close>

record Scanner =
  toks :: "string list"
  bad :: bool
  line :: string
  err :: bool

definition NewScanner :: "Reader \<Rightarrow> Scanner" where
  "NewScanner rd =
    (case ScanLinesFrom [] (content rd) of
       (ls, e) \<Rightarrow> \<lparr>toks = ls, bad = (e \<or> fails rd), line = [], err = False\<rparr>)"

definition Scan :: "Scanner \<Rightarrow> bool \<times> Scanner" where
  "Scan r =
    (case toks r of
       [] \<Rightarrow> (False, r\<lparr>line := [], err := bad r\<rparr>)
     | t # ts \<Rightarrow> (True, r\<lparr>toks := ts, line := t\<rparr>))"

section \<open>Package key: data\<close>

subsection \<open>Names\<close>

type_synonym Name = string

abbreviation NameAtomsNbr :: Name where "NameAtomsNbr \<equiv> ''atoms''"
abbreviation NameBondsNbr :: Name where "NameBondsNbr \<equiv> ''bonds''"
abbreviation NameAnglesNbr :: Name where "NameAnglesNbr \<equiv> ''angles''"
abbreviation NameDihedralsNbr :: Name where "NameDihedralsNbr \<equiv> ''dihedrals''"
abbreviation NameAtomTypes :: Name where "NameAtomTypes \<equiv> ''atom types''"
abbreviation NameBondTypes :: Name where "NameBondTypes \<equiv> ''bond types''"
abbreviation NameAngleTypes :: Name where "NameAngleTypes \<equiv> ''angle types''"
abbreviation NameDihedralTypes :: Name where "NameDihedralTypes \<equiv> ''dihedral types''"
abbreviation NameBoxX :: Name where "NameBoxX \<equiv> ''xlo xhi''"
abbreviation NameBoxY :: Name where "NameBoxY \<equiv> ''ylo yhi''"
abbreviation NameBoxZ :: Name where "NameBoxZ \<equiv> ''zlo zhi''"
abbreviation NameMasses :: Name where "NameMasses \<equiv> ''Masses''"
abbreviation NamePairCoeffs :: Name where "NamePairCoeffs \<equiv> ''Pair Coeffs''"
abbreviation NameBondCoeffs :: Name where "NameBondCoeffs \<equiv> ''Bond Coeffs''"
abbreviation NameAngleCoeffs :: Name where "NameAngleCoeffs \<equiv> ''Angle Coeffs''"
abbreviation NameDihedralCoeffs :: Name where "NameDihedralCoeffs \<equiv> ''Dihedral Coeffs''"
abbreviation NameAtoms :: Name where "NameAtoms \<equiv> ''Atoms''"
abbreviation NameBonds :: Name where "NameBonds \<equiv> ''Bonds''"
abbreviation NameAngles :: Name where "NameAngles \<equiv> ''Angles''"
abbreviation NameDihedrals :: Name where "NameDihedrals \<equiv> ''Dihedrals''"
abbreviation NameTitle :: Name where "NameTitle \<equiv> ''Title''"

definition ListNames :: "Name list" where
  "ListNames =
    [NameAngleCoeffs, NameAngleTypes, NameAngles, NameAnglesNbr, NameAtomTypes, NameAtoms,
     NameAtomsNbr, NameBondCoeffs, NameBondTypes, NameBonds, NameBondsNbr, NameBoxX, NameBoxY,
     NameBoxZ, NameDihedralCoeffs, NameDihedralTypes, NameDihedrals, NameDihedralsNbr,
     NameMasses, NamePairCoeffs, NameTitle]"

definition IsName :: "Name \<Rightarrow> bool" where
  "IsName name = (name \<in> set ListNames)"

subsection \<open>Maps with integer keys\<close>

text \<open>
  A Go map from \<^verbatim>\<open>int\<close> is \<open>None\<close> when it is \<^verbatim>\<open>nil\<close> and else the list of its entries, no
  key twice.  Go leaves the order in which \<^verbatim>\<open>range\<close> visits a map open; here it is the
  order of the list, which is arbitrary.  A map of pointers (\<^verbatim>\<open>map[int]*Atom\<close>,
  \<^verbatim>\<open>map[int]*Link\<close>) is taken to hold no \<^verbatim>\<open>nil\<close> pointer, so its values are the records.
\<close>

type_synonym 'v gomap = "(int \<times> 'v) list option"

definition maplen :: "'v gomap \<Rightarrow> int" where
  "maplen m = (case m of None \<Rightarrow> 0 | Some xs \<Rightarrow> int (length xs))"

definition entries :: "'v gomap \<Rightarrow> (int \<times> 'v) list" where
  "entries m = (case m of None \<Rightarrow> [] | Some xs \<Rightarrow> xs)"

text \<open>\<^verbatim>\<open>m[k] = v\<close> on a map that is not \<^verbatim>\<open>nil\<close>.\<close>

fun mapPut :: "int \<Rightarrow> 'v \<Rightarrow> (int \<times> 'v) list \<Rightarrow> (int \<times> 'v) list" where
  "mapPut k v [] = [(k, v)]"
| "mapPut k v ((k', v') # xs) = (if k = k' then (k, v) # xs else (k', v') # mapPut k v xs)"

text \<open>
  \<^verbatim>\<open>sortIntsMap\<close> gives the keys in increasing order, and every caller then reads the map
  at each of them: together, the entries in increasing order of their keys.
\<close>

definition sortIntsMap :: "(int \<times> 'v) list \<Rightarrow> (int \<times> 'v) list" where
  "sortIntsMap xs = sort_key fst xs"

subsection \<open>Atoms and atom styles\<close>

record Atom =
  MolTag :: int
  AtomType :: int
  Q :: float64
  X :: float64
  Y :: float64
  Z :: float64
  N :: bool
  NX :: int
  NY :: int
  NZ :: int

record Link =
  link_typ :: int
  link_links :: "int list"

datatype AtomStyle = AtomStyleFull | AtomStyleAtomic

fun AtomStyle_Name :: "AtomStyle \<Rightarrow> string" where
  "AtomStyle_Name AtomStyleFull = ''full''"
| "AtomStyle_Name AtomStyleAtomic = ''atomic''"

definition ListAtomStyles :: "AtomStyle list" where
  "ListAtomStyles = [AtomStyleFull, AtomStyleAtomic]"

definition IsAtomStyle :: "string \<Rightarrow> bool" where
  "IsAtomStyle as = (find (\<lambda>s. AtomStyle_Name s = as) ListAtomStyles \<noteq> None)"

definition NewAtomStyle :: "string \<Rightarrow> AtomStyle option" where
  "NewAtomStyle as = find (\<lambda>s. AtomStyle_Name s = as) ListAtomStyles"

fun AtomStyle_Encode :: "FormatG \<Rightarrow> AtomStyle \<Rightarrow> Atom \<Rightarrow> Writer \<Rightarrow> error option \<times> Writer" where
  "AtomStyle_Encode fg AtomStyleFull atom w =
     Fprint w (fmtD (MolTag atom) @ '' '' @ fmtD (AtomType atom) @ '' '' @ fg (Q atom) @ '' ''
               @ fg (X atom) @ '' '' @ fg (Y atom) @ '' '' @ fg (Z atom))"
| "AtomStyle_Encode fg AtomStyleAtomic atom w =
     Fprint w (fmtD (AtomType atom) @ '' '' @ fg (X atom) @ '' '' @ fg (Y atom) @ '' ''
               @ fg (Z atom))"

text \<open>
  In both \<^verbatim>\<open>Decode\<close> methods the result \<^verbatim>\<open>atom\<close> is a named result of type \<^verbatim>\<open>*Atom\<close>:
  it starts as \<^verbatim>\<open>nil\<close> (\<open>None\<close>), and the method never allocates an \<^verbatim>\<open>Atom\<close> for it.
  A statement \<^verbatim>\<open>if atom.F, err = parse(s); err != nil { err = Errorf(msg); return }\<close>
  calls the parser, stores the value through the pointer, which panics when the pointer is
  \<^verbatim>\<open>nil\<close>, and then looks at the error.
\<close>

definition nilDeref :: error where
  "nilDeref = Panic ''invalid memory address or nil pointer dereference''"

definition indexOutOfRange :: error where
  "indexOutOfRange = Panic ''index out of range''"

definition setInt ::
  "Atom option \<Rightarrow> (int \<Rightarrow> Atom \<Rightarrow> Atom) \<Rightarrow> string \<Rightarrow> string \<Rightarrow> error + Atom option" where
  "setInt atom upd s msg =
    (case Atoi s of (n, ok) \<Rightarrow>
      (case atom of
         None \<Rightarrow> Inl nilDeref
       | Some a \<Rightarrow> if \<not> ok then Inl (Wrapf msg StrconvErr) else Inr (Some (upd n a))))"

definition setFloat ::
  "ParseFloat \<Rightarrow> Atom option \<Rightarrow> (float64 \<Rightarrow> Atom \<Rightarrow> Atom) \<Rightarrow> string \<Rightarrow> string
    \<Rightarrow> error + Atom option" where
  "setFloat pf atom upd s msg =
    (case pf s of (x, ok) \<Rightarrow>
      (case atom of
         None \<Rightarrow> Inl nilDeref
       | Some a \<Rightarrow> if \<not> ok then Inl (Wrapf msg StrconvErr) else Inr (Some (upd x a))))"

definition setN :: "Atom option \<Rightarrow> bool \<Rightarrow> error + Atom option" where
  "setN atom b = (case atom of None \<Rightarrow> Inl nilDeref | Some a \<Rightarrow> Inr (Some (a\<lparr>N := b\<rparr>)))"

text \<open>The three optional columns, read when the row has exactly \<open>k + 3\<close> fields.\<close>

definition decodeImages :: "Atom option \<Rightarrow> string list \<Rightarrow> nat \<Rightarrow> error + Atom option" where
  "decodeImages atom f k =
    (case setN atom True of Inl e \<Rightarrow> Inl e | Inr atom \<Rightarrow>
     case setInt atom (\<lambda>n a. a\<lparr>NX := n\<rparr>) (f ! k) ''strconv.Atoi NX: %w'' of
       Inl e \<Rightarrow> Inl e | Inr atom \<Rightarrow>
     case setInt atom (\<lambda>n a. a\<lparr>NY := n\<rparr>) (f ! (k + 1)) ''strconv.Atoi NY: %w'' of
       Inl e \<Rightarrow> Inl e | Inr atom \<Rightarrow>
     setInt atom (\<lambda>n a. a\<lparr>NZ := n\<rparr>) (f ! (k + 2)) ''strconv.Atoi NZ: %w'')"

text \<open>
  The final \<^verbatim>\<open>return\<close> gives the identifier and the pointer; the caller stores the pointer
  in the table.
\<close>

definition returnAtom :: "int \<Rightarrow> Atom option \<Rightarrow> error + int \<times> Atom" where
  "returnAtom ident atom = (case atom of None \<Rightarrow> Inl nilDeref | Some a \<Rightarrow> Inr (ident, a))"

definition atomStyleFull_Decode :: "ParseFloat \<Rightarrow> string list \<Rightarrow> error + int \<times> Atom" where
  "atomStyleFull_Decode pf f =
    (let atom = (None :: Atom option) in
     if length f < 7 then Inl (Errorf ''not enough fields = %d, want >= 7'')
     else case Atoi (f ! 0) of (ident, ok) \<Rightarrow>
     if \<not> ok then Inl (Wrapf ''strconv.Atoi id: %w'' StrconvErr)
     else
     case setInt atom (\<lambda>n a. a\<lparr>MolTag := n\<rparr>) (f ! 1) ''strconv.Atoi MolTag: %w'' of
       Inl e \<Rightarrow> Inl e | Inr atom \<Rightarrow>
     case setInt atom (\<lambda>n a. a\<lparr>AtomType := n\<rparr>) (f ! 2) ''strconv.Atoi AtomType: %w'' of
       Inl e \<Rightarrow> Inl e | Inr atom \<Rightarrow>
     case setFloat pf atom (\<lambda>x a. a\<lparr>Q := x\<rparr>) (f ! 3) ''strconv.ParseFloat Q: %w'' of
       Inl e \<Rightarrow> Inl e | Inr atom \<Rightarrow>
     case setFloat pf atom (\<lambda>x a. a\<lparr>X := x\<rparr>) (f ! 4) ''strconv.ParseFloat X: %w'' of
       Inl e \<Rightarrow> Inl e | Inr atom \<Rightarrow>
     case setFloat pf atom (\<lambda>x a. a\<lparr>Y := x\<rparr>) (f ! 5) ''strconv.ParseFloat Y: %w'' of
       Inl e \<Rightarrow> Inl e | Inr atom \<Rightarrow>
     case setFloat pf atom (\<lambda>x a. a\<lparr>Z := x\<rparr>) (f ! 6) ''strconv.ParseFloat Z: %w'' of
       Inl e \<Rightarrow> Inl e | Inr atom \<Rightarrow>
     case setN atom False of Inl e \<Rightarrow> Inl e | Inr atom \<Rightarrow>
     if length f = 10 then
       (case decodeImages atom f 7 of Inl e \<Rightarrow> Inl e | Inr atom \<Rightarrow> returnAtom ident atom)
     else returnAtom ident atom)"

definition atomStyleAtomic_Decode :: "ParseFloat \<Rightarrow> string list \<Rightarrow> error + int \<times> Atom" where
  "atomStyleAtomic_Decode pf f =
    (let atom = (None :: Atom option) in
     if length f < 5 then Inl (Errorf ''not enough fields = %d, want >= 5'')
     else case Atoi (f ! 0) of (ident, ok) \<Rightarrow>
     if \<not> ok then Inl (Wrapf ''strconv.Atoi id: %w'' StrconvErr)
     else
     case setInt atom (\<lambda>n a. a\<lparr>AtomType := n\<rparr>) (f ! 1) ''strconv.Atoi AtomType: %w'' of
       Inl e \<Rightarrow> Inl e | Inr atom \<Rightarrow>
     case setFloat pf atom (\<lambda>x a. a\<lparr>X := x\<rparr>) (f ! 2) ''strconv.ParseFloat X: %w'' of
       Inl e \<Rightarrow> Inl e | Inr atom \<Rightarrow>
     case setFloat pf atom (\<lambda>x a. a\<lparr>Y := x\<rparr>) (f ! 3) ''strconv.ParseFloat Y: %w'' of
       Inl e \<Rightarrow> Inl e | Inr atom \<Rightarrow>
     case setFloat pf atom (\<lambda>x a. a\<lparr>Z := x\<rparr>) (f ! 4) ''strconv.ParseFloat Z: %w'' of
       Inl e \<Rightarrow> Inl e | Inr atom \<Rightarrow>
     case setN atom False of Inl e \<Rightarrow> Inl e | Inr atom \<Rightarrow>
     if length f = 8 then
       (case decodeImages atom f 5 of Inl e \<Rightarrow> Inl e | Inr atom \<Rightarrow> returnAtom ident atom)
     else returnAtom ident atom)"

fun AtomStyle_Decode :: "ParseFloat \<Rightarrow> AtomStyle \<Rightarrow> string list \<Rightarrow> error + int \<times> Atom" where
  "AtomStyle_Decode pf AtomStyleFull f = atomStyleFull_Decode pf f"
| "AtomStyle_Decode pf AtomStyleAtomic f = atomStyleAtomic_Decode pf f"

subsection \<open>The Keys\<close>

text \<open>
  Every Key of the package is a pointer to one of seven structs.  The Keys of a document are
  made by \<^verbatim>\<open>MakeKeys\<close>, which holds one Key for each Name; a field of type \<^verbatim>\<open>*Header\<close>
  is \<open>None\<close> when it is \<^verbatim>\<open>nil\<close> and else the Name of the Header it points to, and the Keys
  themselves are in a store from Names to Keys, so that two Keys that point to the same Header
  see each other's writes.
\<close>

record Title =
  t_v :: string

record Header =
  h_name :: Name
  h_nameSep :: "string list"
  h_vBytes :: string
  h_v :: int

record Box =
  b_name :: Name
  b_nameSep :: "string list"
  b_vBytes :: "string \<times> string"
  b_vlo :: float64
  b_vhi :: float64

record Masses =
  m_types :: "Name option"
  m_v :: "float64 gomap"

record Coeffs =
  c_name :: Name
  c_types :: "Name option"
  c_v :: "float64 list gomap"

record Atoms =
  a_atomStyle :: AtomStyle
  a_atomsNbr :: "Name option"
  a_atomTypes :: "Name option"
  a_v :: "Atom gomap"

record Links =
  l_name :: Name
  l_links :: nat
  l_nbr :: "Name option"
  l_types :: "Name option"
  l_atomsNbr :: "Name option"
  l_v :: "Link gomap"

datatype Key =
    KTitle Title
  | KHeader Header
  | KBox Box
  | KMasses Masses
  | KCoeffs Coeffs
  | KAtoms Atoms
  | KLinks Links

type_synonym Keys = "Name \<Rightarrow> Key option"

text \<open>The values that pass through \<^verbatim>\<open>Set(interface{})\<close> and \<^verbatim>\<open>Get() interface{}\<close>.\<close>

datatype goval =
    VString string
  | VInt int
  | VFloat2 float64 float64
  | VMasses "float64 gomap"
  | VCoeffs "float64 list gomap"
  | VAtoms "Atom gomap"
  | VLinks "Link gomap"
  | VOther

definition NewHeader :: "Name \<Rightarrow> Header" where
  "NewHeader name = \<lparr>h_name = name, h_nameSep = Fields name, h_vBytes = [], h_v = 0\<rparr>"

definition NewBox :: "Name \<Rightarrow> Box" where
  "NewBox name =
    \<lparr>b_name = name, b_nameSep = Fields name, b_vBytes = ([], []), b_vlo = 0, b_vhi = 0\<rparr>"

definition NewCoeffs :: "Name \<Rightarrow> Coeffs" where
  "NewCoeffs name = \<lparr>c_name = name, c_types = None, c_v = None\<rparr>"

definition NewAtoms :: "AtomStyle \<Rightarrow> Atoms" where
  "NewAtoms as = \<lparr>a_atomStyle = as, a_atomsNbr = None, a_atomTypes = None, a_v = None\<rparr>"

text \<open>\<^verbatim>\<open>NewLinks(name, links)\<close> is called with 2, 3 or 4 links.\<close>

definition NewLinks :: "Name \<Rightarrow> nat \<Rightarrow> Links" where
  "NewLinks name n =
    \<lparr>l_name = name, l_links = n + 2, l_nbr = None, l_types = None, l_atomsNbr = None,
     l_v = None\<rparr>"

definition newMasses :: Masses where
  "newMasses = \<lparr>m_types = None, m_v = None\<rparr>"

definition newTitle :: Title where
  "newTitle = \<lparr>t_v = []\<rparr>"

fun Key_Name :: "Key \<Rightarrow> Name" where
  "Key_Name (KTitle t) = NameTitle"
| "Key_Name (KHeader h) = h_name h"
| "Key_Name (KBox b) = b_name b"
| "Key_Name (KMasses m) = NameMasses"
| "Key_Name (KCoeffs c) = c_name c"
| "Key_Name (KAtoms a) = NameAtoms"
| "Key_Name (KLinks l) = l_name l"

fun IsHeader :: "Key \<Rightarrow> bool" where
  "IsHeader (KHeader h) = True"
| "IsHeader (KBox b) = True"
| "IsHeader k = False"

text \<open>
  Reading the integer of the Header a pointer refers to (\<^verbatim>\<open>p.Get().(int)\<close>).  A pointer of
  the program always refers to its Header; a Name that refers to no Header of the store has no
  counterpart in the program and is reported as \<open>dangling\<close>.
\<close>

definition dangling :: error where
  "dangling = Panic ''no Header at this Name''"

definition getInt :: "Keys \<Rightarrow> Name \<Rightarrow> error + int" where
  "getInt ks p = (case ks p of Some (KHeader h) \<Rightarrow> Inr (h_v h) | _ \<Rightarrow> Inl dangling)"

text \<open>\<^verbatim>\<open>p.Set(n)\<close> with an \<^verbatim>\<open>int\<close> through a pointer to a Header.\<close>

definition setIntAt :: "Keys \<Rightarrow> Name \<Rightarrow> int \<Rightarrow> error option \<times> Keys" where
  "setIntAt ks p n =
    (case ks p of
       Some (KHeader h) \<Rightarrow> (None, ks(p \<mapsto> KHeader (h\<lparr>h_v := n\<rparr>)))
     | _ \<Rightarrow> (Some dangling, ks))"

section \<open>Package key: Keyword\<close>

definition keyword :: "string \<Rightarrow> string \<Rightarrow> bool" where
  "keyword s prefix = HasPrefix (TrimLeftSpace s) prefix"

text \<open>The loop of \<^verbatim>\<open>keywordHeader\<close> over \<^verbatim>\<open>prefix[1:]\<close>.\<close>

fun keywordHeaderLoop :: "string \<Rightarrow> string list \<Rightarrow> bool" where
  "keywordHeaderLoop s [] = True"
| "keywordHeaderLoop s (p # ps) =
    (case IndexSpace s of
       None \<Rightarrow> False
     | Some idx \<Rightarrow>
         (let s' = TrimLeftSpace (drop idx s)
          in if \<not> HasPrefix s' p then False else keywordHeaderLoop s' ps))"

definition keywordHeader :: "string \<Rightarrow> string list \<Rightarrow> bool" where
  "keywordHeader s prefix =
    (case prefix of
       [] \<Rightarrow> False
     | p0 # ps \<Rightarrow>
         (let s' = TrimLeftSpace s
          in if \<not> HasPrefix s' p0 then False else keywordHeaderLoop s' ps))"

text \<open>\<^verbatim>\<open>Header.Keyword\<close> and \<^verbatim>\<open>Box.Keyword\<close> keep the bytes of the numbers in the Key.\<close>

definition Header_Keyword :: "Header \<Rightarrow> string \<Rightarrow> bool \<times> Header" where
  "Header_Keyword h s =
    (let s' = TrimLeftSpace s
     in case IndexSpace s' of
          Some idx \<Rightarrow> (keywordHeader (drop idx s') (h_nameSep h), h\<lparr>h_vBytes := take idx s'\<rparr>)
        | None \<Rightarrow> (False, h))"

definition Box_Keyword :: "Box \<Rightarrow> string \<Rightarrow> bool \<times> Box" where
  "Box_Keyword b s =
    (let s0 = TrimLeftSpace s
     in case IndexSpace s0 of
          None \<Rightarrow> (False, b)
        | Some idx0 \<Rightarrow>
            if idx0 < 1 then (False, b)
            else
              (let b0 = b\<lparr>b_vBytes := (take idx0 s0, snd (b_vBytes b))\<rparr>;
                   s1 = TrimLeftSpace (drop idx0 s0)
               in case IndexSpace s1 of
                    None \<Rightarrow> (False, b0)
                  | Some idx1 \<Rightarrow>
                      if idx1 < 1 then (False, b0)
                      else
                        (let b1 = b0\<lparr>b_vBytes := (fst (b_vBytes b0), take idx1 s1)\<rparr>
                         in (keywordHeader (drop idx1 s1) (b_nameSep b1), b1))))"

definition Title_Keyword :: "Title \<Rightarrow> string \<Rightarrow> bool" where
  "Title_Keyword t s = False"

definition Masses_Keyword :: "Masses \<Rightarrow> string \<Rightarrow> bool" where
  "Masses_Keyword m s = keyword s NameMasses"

definition Coeffs_Keyword :: "Coeffs \<Rightarrow> string \<Rightarrow> bool" where
  "Coeffs_Keyword c s = keyword s (c_name c)"

definition Atoms_Keyword :: "Atoms \<Rightarrow> string \<Rightarrow> bool" where
  "Atoms_Keyword a s = keyword s NameAtoms"

definition Links_Keyword :: "Links \<Rightarrow> string \<Rightarrow> bool" where
  "Links_Keyword l s = keyword s (l_name l)"

fun Key_Keyword :: "Key \<Rightarrow> string \<Rightarrow> bool \<times> Key" where
  "Key_Keyword (KTitle t) s = (Title_Keyword t s, KTitle t)"
| "Key_Keyword (KHeader h) s = (case Header_Keyword h s of (ok, h') \<Rightarrow> (ok, KHeader h'))"
| "Key_Keyword (KBox b) s = (case Box_Keyword b s of (ok, b') \<Rightarrow> (ok, KBox b'))"
| "Key_Keyword (KMasses m) s = (Masses_Keyword m s, KMasses m)"
| "Key_Keyword (KCoeffs c) s = (Coeffs_Keyword c s, KCoeffs c)"
| "Key_Keyword (KAtoms a) s = (Atoms_Keyword a s, KAtoms a)"
| "Key_Keyword (KLinks l) s = (Links_Keyword l s, KLinks l)"

section \<open>Package key: SetKeys and SetKeysVal\<close>

text \<open>
  \<^verbatim>\<open>SetKeys(k ...Key)\<close> gets Keys of any variant.  The type assertion \<^verbatim>\<open>key.(*Header)\<close>
  succeeds on a Header, and the pointer kept is the Name of that Header.
\<close>

definition Title_SetKeys :: "Title \<Rightarrow> Key list \<Rightarrow> error option \<times> Title" where
  "Title_SetKeys t k = (Some ErrUnsupported, t)"

definition Header_SetKeys :: "Header \<Rightarrow> Key list \<Rightarrow> error option \<times> Header" where
  "Header_SetKeys h k = (Some ErrUnsupported, h)"

definition Box_SetKeys :: "Box \<Rightarrow> Key list \<Rightarrow> error option \<times> Box" where
  "Box_SetKeys b k = (Some ErrUnsupported, b)"

definition Masses_SetKeys :: "Masses \<Rightarrow> Key list \<Rightarrow> error option \<times> Masses" where
  "Masses_SetKeys m k =
    (if length k \<noteq> 1 then (Some (Errorf ''too much keys: only one key is accepted''), m)
     else case k ! 0 of
       KHeader h \<Rightarrow>
         (let m' = m\<lparr>m_types := Some (h_name h)\<rparr>
          in if h_name h \<noteq> NameAtomTypes then
               (Some (Errorf ''Key provided does not have a Name equal to NameAtomTypes''), m')
             else (None, m'))
     | _ \<Rightarrow>
         (Some (Errorf ''type assertion error: Key provided is not *Header''),
          m\<lparr>m_types := None\<rparr>))"

definition Coeffs_SetKeys :: "Coeffs \<Rightarrow> Key list \<Rightarrow> error option \<times> Coeffs" where
  "Coeffs_SetKeys c k =
    (if length k \<noteq> 1 then (Some (Errorf ''only one Key is accepted''), c)
     else case k ! 0 of
       KHeader h \<Rightarrow> (None, c\<lparr>c_types := Some (h_name h)\<rparr>)
     | _ \<Rightarrow>
         (Some (Errorf ''type assertion error: Key provided is not *Header''),
          c\<lparr>c_types := None\<rparr>))"

fun Atoms_SetKeys :: "Atoms \<Rightarrow> Key list \<Rightarrow> error option \<times> Atoms" where
  "Atoms_SetKeys a [] = (None, a)"
| "Atoms_SetKeys a (KHeader h # k) =
    (if h_name h = NameAtomsNbr then Atoms_SetKeys (a\<lparr>a_atomsNbr := Some (h_name h)\<rparr>) k
     else if h_name h = NameAtomTypes then Atoms_SetKeys (a\<lparr>a_atomTypes := Some (h_name h)\<rparr>) k
     else (Some (Errorf
       ''Key provided does not have a Name equal to NameAtomsNbr or NameAtomTypes''), a))"
| "Atoms_SetKeys a (other # k) =
    (Some (Errorf ''type assertion error: Key provided is not *Header''), a)"

fun Links_SetKeys :: "Links \<Rightarrow> Key list \<Rightarrow> error option \<times> Links" where
  "Links_SetKeys l [] = (None, l)"
| "Links_SetKeys l (KHeader h # k) =
    (if h_name h = NameAtomsNbr then Links_SetKeys (l\<lparr>l_atomsNbr := Some (h_name h)\<rparr>) k
     else if HasSuffix (h_name h) ''types'' then
       Links_SetKeys (l\<lparr>l_types := Some (h_name h)\<rparr>) k
     else Links_SetKeys (l\<lparr>l_nbr := Some (h_name h)\<rparr>) k)"
| "Links_SetKeys l (other # k) =
    (Some (Errorf ''type assertion error: key provided is not *Header''), l)"

fun Key_SetKeys :: "Key \<Rightarrow> Key list \<Rightarrow> error option \<times> Key" where
  "Key_SetKeys (KTitle t) k = (case Title_SetKeys t k of (e, t') \<Rightarrow> (e, KTitle t'))"
| "Key_SetKeys (KHeader h) k = (case Header_SetKeys h k of (e, h') \<Rightarrow> (e, KHeader h'))"
| "Key_SetKeys (KBox b) k = (case Box_SetKeys b k of (e, b') \<Rightarrow> (e, KBox b'))"
| "Key_SetKeys (KMasses m) k = (case Masses_SetKeys m k of (e, m') \<Rightarrow> (e, KMasses m'))"
| "Key_SetKeys (KCoeffs c) k = (case Coeffs_SetKeys c k of (e, c') \<Rightarrow> (e, KCoeffs c'))"
| "Key_SetKeys (KAtoms a) k = (case Atoms_SetKeys a k of (e, a') \<Rightarrow> (e, KAtoms a'))"
| "Key_SetKeys (KLinks l) k = (case Links_SetKeys l k of (e, l') \<Rightarrow> (e, KLinks l'))"

text \<open>
  \<^verbatim>\<open>SetKeysVal\<close> writes the length of the table into a Header through a pointer, so it
  works on the store.
\<close>

definition Masses_SetKeysVal :: "Keys \<Rightarrow> Masses \<Rightarrow> error option \<times> Keys" where
  "Masses_SetKeysVal ks m =
    (case m_types m of
       None \<Rightarrow> (Some (Errorf
         ''Key that is an instance of *Header with Name equal to NameAtomTypes is nil''), ks)
     | Some p \<Rightarrow> setIntAt ks p (maplen (m_v m)))"

definition Coeffs_SetKeysVal :: "Keys \<Rightarrow> Coeffs \<Rightarrow> error option \<times> Keys" where
  "Coeffs_SetKeysVal ks c =
    (case c_types c of
       None \<Rightarrow> (Some (Errorf
         ''Key that is an instance of *Header with Name equal to NamexxxTypes is nil''), ks)
     | Some p \<Rightarrow> setIntAt ks p (maplen (c_v c)))"

definition Atoms_SetKeysVal :: "Keys \<Rightarrow> Atoms \<Rightarrow> error option \<times> Keys" where
  "Atoms_SetKeysVal ks a =
    (case a_atomsNbr a of
       None \<Rightarrow> (Some (Errorf
         ''Key that is an instance of *Header with Name equal to NameAtomsNbr is nil''), ks)
     | Some p \<Rightarrow> setIntAt ks p (maplen (a_v a)))"

definition Links_SetKeysVal :: "Keys \<Rightarrow> Links \<Rightarrow> error option \<times> Keys" where
  "Links_SetKeysVal ks l =
    (case l_nbr l of
       None \<Rightarrow> (Some (Errorf
         ''Key that is an instance of *Header that represent the number of values is nil''), ks)
     | Some p \<Rightarrow> setIntAt ks p (maplen (l_v l)))"

fun Key_SetKeysVal :: "Keys \<Rightarrow> Key \<Rightarrow> error option \<times> Keys" where
  "Key_SetKeysVal ks (KTitle t) = (Some ErrUnsupported, ks)"
| "Key_SetKeysVal ks (KHeader h) = (Some ErrUnsupported, ks)"
| "Key_SetKeysVal ks (KBox b) = (Some ErrUnsupported, ks)"
| "Key_SetKeysVal ks (KMasses m) = Masses_SetKeysVal ks m"
| "Key_SetKeysVal ks (KCoeffs c) = Coeffs_SetKeysVal ks c"
| "Key_SetKeysVal ks (KAtoms a) = Atoms_SetKeysVal ks a"
| "Key_SetKeysVal ks (KLinks l) = Links_SetKeysVal ks l"

section \<open>Package key: Set and Get\<close>

text \<open>
  \<^verbatim>\<open>x, ok = v.(T)\<close> stores the zero value of \<open>T\<close> when the assertion fails; \<^verbatim>\<open>Title.Set\<close>
  and \<^verbatim>\<open>Box.Set\<close> assert into a local variable and leave the Key as it is.
\<close>

definition Title_Set :: "Title \<Rightarrow> goval \<Rightarrow> error option \<times> Title" where
  "Title_Set t v =
    (case v of
       VString val \<Rightarrow> (None, t\<lparr>t_v := val\<rparr>)
     | _ \<Rightarrow> (Some (Errorf ''type assertion error: value is not string''), t))"

definition Header_Set :: "Header \<Rightarrow> goval \<Rightarrow> error option \<times> Header" where
  "Header_Set h v =
    (case v of
       VInt n \<Rightarrow> (None, h\<lparr>h_v := n\<rparr>)
     | _ \<Rightarrow> (Some (Errorf ''type assertion (int) error''), h\<lparr>h_v := 0\<rparr>))"

definition Box_Set :: "Box \<Rightarrow> goval \<Rightarrow> error option \<times> Box" where
  "Box_Set b v =
    (case v of
       VFloat2 lo hi \<Rightarrow> (None, b\<lparr>b_vlo := lo, b_vhi := hi\<rparr>)
     | _ \<Rightarrow> (Some (Errorf ''type assertion error: value is not [2]float64''), b))"

definition Masses_Set :: "Masses \<Rightarrow> goval \<Rightarrow> error option \<times> Masses" where
  "Masses_Set m v =
    (case v of
       VMasses x \<Rightarrow> (None, m\<lparr>m_v := x\<rparr>)
     | _ \<Rightarrow> (Some (Errorf ''type assertion error: value is not map[int]float64''),
             m\<lparr>m_v := None\<rparr>))"

definition Coeffs_Set :: "Coeffs \<Rightarrow> goval \<Rightarrow> error option \<times> Coeffs" where
  "Coeffs_Set c v =
    (case v of
       VCoeffs x \<Rightarrow> (None, c\<lparr>c_v := x\<rparr>)
     | _ \<Rightarrow> (Some (Errorf ''type assertion error: value is not map[int][]float64''),
             c\<lparr>c_v := None\<rparr>))"

definition Atoms_Set :: "Atoms \<Rightarrow> goval \<Rightarrow> error option \<times> Atoms" where
  "Atoms_Set a v =
    (case v of
       VAtoms x \<Rightarrow> (None, a\<lparr>a_v := x\<rparr>)
     | _ \<Rightarrow> (Some (Errorf ''type assertion error: value is not map[int]*Atom)''),
             a\<lparr>a_v := None\<rparr>))"

definition Links_Set :: "Links \<Rightarrow> goval \<Rightarrow> error option \<times> Links" where
  "Links_Set l v =
    (case v of
       VLinks x \<Rightarrow> (None, l\<lparr>l_v := x\<rparr>)
     | _ \<Rightarrow> (Some (Errorf ''type assertion error: value is not map[int]*Link''),
             l\<lparr>l_v := None\<rparr>))"

fun Key_Set :: "Key \<Rightarrow> goval \<Rightarrow> error option \<times> Key" where
  "Key_Set (KTitle t) v = (case Title_Set t v of (e, t') \<Rightarrow> (e, KTitle t'))"
| "Key_Set (KHeader h) v = (case Header_Set h v of (e, h') \<Rightarrow> (e, KHeader h'))"
| "Key_Set (KBox b) v = (case Box_Set b v of (e, b') \<Rightarrow> (e, KBox b'))"
| "Key_Set (KMasses m) v = (case Masses_Set m v of (e, m') \<Rightarrow> (e, KMasses m'))"
| "Key_Set (KCoeffs c) v = (case Coeffs_Set c v of (e, c') \<Rightarrow> (e, KCoeffs c'))"
| "Key_Set (KAtoms a) v = (case Atoms_Set a v of (e, a') \<Rightarrow> (e, KAtoms a'))"
| "Key_Set (KLinks l) v = (case Links_Set l v of (e, l') \<Rightarrow> (e, KLinks l'))"

fun Key_Get :: "Key \<Rightarrow> goval" where
  "Key_Get (KTitle t) = VString (t_v t)"
| "Key_Get (KHeader h) = VInt (h_v h)"
| "Key_Get (KBox b) = VFloat2 (b_vlo b) (b_vhi b)"
| "Key_Get (KMasses m) = VMasses (m_v m)"
| "Key_Get (KCoeffs c) = VCoeffs (c_v c)"
| "Key_Get (KAtoms a) = VAtoms (a_v a)"
| "Key_Get (KLinks l) = VLinks (l_v l)"

section \<open>Package key: Encode\<close>

abbreviation NL :: string where
  "NL \<equiv> [CHR 0x0A]"

definition Title_Encode :: "Title \<Rightarrow> Writer \<Rightarrow> error option \<times> Writer" where
  "Title_Encode t w = Fprint w (t_v t @ NL)"

definition Header_Encode :: "Header \<Rightarrow> Writer \<Rightarrow> error option \<times> Writer" where
  "Header_Encode h w = Fprint w (fmtD (h_v h) @ '' '' @ h_name h @ NL)"

definition Box_Encode :: "FormatG \<Rightarrow> Box \<Rightarrow> Writer \<Rightarrow> error option \<times> Writer" where
  "Box_Encode fg b w = Fprint w (fg (b_vlo b) @ '' '' @ fg (b_vhi b) @ '' '' @ b_name b @ NL)"

text \<open>
  The tables: an error for a \<^verbatim>\<open>nil\<close> map, nothing for an empty one; else the header, whose
  write error is dropped, and the rows in increasing order of the keys.
\<close>

fun Masses_Encode_rows ::
  "FormatG \<Rightarrow> (int \<times> float64) list \<Rightarrow> Writer \<Rightarrow> error option \<times> Writer" where
  "Masses_Encode_rows fg [] w = (None, w)"
| "Masses_Encode_rows fg ((k, v) # xs) w =
    (case Fprint w (fmtD k @ '' '' @ fg v @ NL) of
       (Some e, w') \<Rightarrow> (Some (wrapf ''fmt.Fprintf: %w'' e), w')
     | (None, w') \<Rightarrow> Masses_Encode_rows fg xs w')"

definition Masses_Encode :: "FormatG \<Rightarrow> Masses \<Rightarrow> Writer \<Rightarrow> error option \<times> Writer" where
  "Masses_Encode fg m w =
    (case m_v m of
       None \<Rightarrow> (Some (Errorf ''map[int]float64 is nil: use the Decode or Set methods''), w)
     | Some xs \<Rightarrow>
         if length xs = 0 then (None, w)
         else Masses_Encode_rows fg (sortIntsMap xs) (snd (Fprint w (NameMasses @ NL @ NL))))"

fun Coeffs_Encode_vals :: "FormatG \<Rightarrow> float64 list \<Rightarrow> Writer \<Rightarrow> error option \<times> Writer" where
  "Coeffs_Encode_vals fg [] w = (None, w)"
| "Coeffs_Encode_vals fg (v # vs) w =
    (case Fprint w ('' '' @ fg v) of
       (Some e, w') \<Rightarrow> (Some (wrapf ''fmt.Fprintf coeff: %w'' e), w')
     | (None, w') \<Rightarrow> Coeffs_Encode_vals fg vs w')"

fun Coeffs_Encode_rows ::
  "FormatG \<Rightarrow> (int \<times> float64 list) list \<Rightarrow> Writer \<Rightarrow> error option \<times> Writer" where
  "Coeffs_Encode_rows fg [] w = (None, w)"
| "Coeffs_Encode_rows fg ((k, vs) # xs) w =
    (case Fprint w (fmtD k) of
       (Some e, w1) \<Rightarrow> (Some (wrapf ''fmt.Fprintf: %w'' e), w1)
     | (None, w1) \<Rightarrow>
        (case Coeffs_Encode_vals fg vs w1 of
           (Some e, w2) \<Rightarrow> (Some e, w2)
         | (None, w2) \<Rightarrow>
            (case Fprint w2 NL of
               (Some e, w3) \<Rightarrow> (Some (wrapf ''fmt.Fprintf newline: %w'' e), w3)
             | (None, w3) \<Rightarrow> Coeffs_Encode_rows fg xs w3)))"

definition Coeffs_Encode :: "FormatG \<Rightarrow> Coeffs \<Rightarrow> Writer \<Rightarrow> error option \<times> Writer" where
  "Coeffs_Encode fg c w =
    (case c_v c of
       None \<Rightarrow> (Some (Errorf ''map[int][]float64 is nil: use the Decode or Set methods''), w)
     | Some xs \<Rightarrow>
         if length xs = 0 then (None, w)
         else Coeffs_Encode_rows fg (sortIntsMap xs) (snd (Fprint w (c_name c @ NL @ NL))))"

fun Links_Encode_vals :: "int list \<Rightarrow> Writer \<Rightarrow> error option \<times> Writer" where
  "Links_Encode_vals [] w = (None, w)"
| "Links_Encode_vals (v # vs) w =
    (case Fprint w ('' '' @ fmtD v) of
       (Some e, w') \<Rightarrow> (Some (wrapf ''fmt.Fprintf link: %w'' e), w')
     | (None, w') \<Rightarrow> Links_Encode_vals vs w')"

fun Links_Encode_rows :: "(int \<times> Link) list \<Rightarrow> Writer \<Rightarrow> error option \<times> Writer" where
  "Links_Encode_rows [] w = (None, w)"
| "Links_Encode_rows ((k, link) # xs) w =
    (case Fprint w (fmtD k @ '' '' @ fmtD (link_typ link)) of
       (Some e, w1) \<Rightarrow> (Some (wrapf ''fmt.Fprintf: %w'' e), w1)
     | (None, w1) \<Rightarrow>
        (case Links_Encode_vals (link_links link) w1 of
           (Some e, w2) \<Rightarrow> (Some e, w2)
         | (None, w2) \<Rightarrow>
            (case Fprint w2 NL of
               (Some e, w3) \<Rightarrow> (Some (wrapf ''fmt.Fprintf newline: %w'' e), w3)
             | (None, w3) \<Rightarrow> Links_Encode_rows xs w3)))"

definition Links_Encode :: "Links \<Rightarrow> Writer \<Rightarrow> error option \<times> Writer" where
  "Links_Encode l w =
    (case l_v l of
       None \<Rightarrow> (Some (Errorf ''map[int]*Link is nil: use the Decode or Set methods''), w)
     | Some xs \<Rightarrow>
         if length xs = 0 then (None, w)
         else Links_Encode_rows (sortIntsMap xs) (snd (Fprint w (l_name l @ NL @ NL))))"

fun Atoms_Encode_rows ::
  "FormatG \<Rightarrow> AtomStyle \<Rightarrow> (int \<times> Atom) list \<Rightarrow> Writer \<Rightarrow> error option \<times> Writer" where
  "Atoms_Encode_rows fg as [] w = (None, w)"
| "Atoms_Encode_rows fg as ((k, v) # xs) w =
    (case Fprint w (fmtD k @ '' '') of
       (Some e, w1) \<Rightarrow> (Some (wrapf ''fmt.Fprintf id: %w'' e), w1)
     | (None, w1) \<Rightarrow>
        (case AtomStyle_Encode fg as v w1 of
           (Some e, w2) \<Rightarrow> (Some (wrapf ''a.atomStyle.Encode named %s: %w'' e), w2)
         | (None, w2) \<Rightarrow>
            (case (if N v
                   then Fprint w2 ('' '' @ fmtD (NX v) @ '' '' @ fmtD (NY v) @ '' ''
                                   @ fmtD (NZ v) @ NL)
                   else Fprint w2 NL) of
               (Some e, w3) \<Rightarrow>
                 (Some (wrapf ''fmt.Fprintf newline/optional params: %w'' e), w3)
             | (None, w3) \<Rightarrow> Atoms_Encode_rows fg as xs w3)))"

definition Atoms_Encode :: "FormatG \<Rightarrow> Atoms \<Rightarrow> Writer \<Rightarrow> error option \<times> Writer" where
  "Atoms_Encode fg a w =
    (case a_v a of
       None \<Rightarrow> (Some (Errorf ''map[int]*Atom is nil: use the Decode or Set methods''), w)
     | Some xs \<Rightarrow>
         if length xs = 0 then (None, w)
         else Atoms_Encode_rows fg (a_atomStyle a) (sortIntsMap xs)
                (snd (Fprint w (NameAtoms @ NL @ NL))))"

fun Key_Encode :: "FormatG \<Rightarrow> Key \<Rightarrow> Writer \<Rightarrow> error option \<times> Writer" where
  "Key_Encode fg (KTitle t) w = Title_Encode t w"
| "Key_Encode fg (KHeader h) w = Header_Encode h w"
| "Key_Encode fg (KBox b) w = Box_Encode fg b w"
| "Key_Encode fg (KMasses m) w = Masses_Encode fg m w"
| "Key_Encode fg (KCoeffs c) w = Coeffs_Encode fg c w"
| "Key_Encode fg (KAtoms a) w = Atoms_Encode fg a w"
| "Key_Encode fg (KLinks l) w = Links_Encode l w"

section \<open>Package key: Decode\<close>

definition delComments :: "string \<Rightarrow> string" where
  "delComments s = (case IndexRune s (CHR ''#'') of Some idx \<Rightarrow> take idx s | None \<Rightarrow> s)"

definition scanErr :: "string \<Rightarrow> Scanner \<Rightarrow> error option" where
  "scanErr msg r = (if err r then Some (Wrapf msg ReadErr) else None)"

text \<open>
  The four tables read their rows with the same loop,
  \<^verbatim>\<open>for i := 0; i < n && r.Scan(); i++ { ... }\<close> followed by the test of \<^verbatim>\<open>r.Err()\<close>:
  \<open>row\<close> is the body, which reads one line into an entry of the map or returns an error.
\<close>

function decodeRows ::
  "(string \<Rightarrow> error + int \<times> 'v) \<Rightarrow> int \<Rightarrow> int \<Rightarrow> (int \<times> 'v) list \<Rightarrow> Scanner
    \<Rightarrow> error option \<times> (int \<times> 'v) list \<times> Scanner" where
  "decodeRows row i n v r =
    (if i < n then
       (case Scan r of
          (False, r') \<Rightarrow> (scanErr ''r.Scan: %w'' r', v, r')
        | (True, r') \<Rightarrow>
            (case row (line r') of
               Inl e \<Rightarrow> (Some e, v, r')
             | Inr (k, x) \<Rightarrow> decodeRows row (i + 1) n (mapPut k x v) r'))
     else (scanErr ''r.Scan: %w'' r, v, r))"
  by pat_completeness auto
termination
  by (relation "measure (\<lambda>(row, i, n, v, r). nat (n - i))") auto

declare decodeRows.simps [simp del]

definition Title_Decode :: "Title \<Rightarrow> string \<Rightarrow> Scanner \<Rightarrow> error option \<times> Title \<times> Scanner" where
  "Title_Decode t s r = (None, t\<lparr>t_v := s\<rparr>, r)"

definition Header_Decode :: "Header \<Rightarrow> string \<Rightarrow> Scanner \<Rightarrow> error option \<times> Header \<times> Scanner" where
  "Header_Decode h s r =
    (case Atoi (h_vBytes h) of (n, ok) \<Rightarrow>
      (if \<not> ok then Some (Wrapf ''strconv.Atoi: %w'' StrconvErr) else None, h\<lparr>h_v := n\<rparr>, r))"

definition Box_Decode ::
  "ParseFloat \<Rightarrow> Box \<Rightarrow> string \<Rightarrow> Scanner \<Rightarrow> error option \<times> Box \<times> Scanner" where
  "Box_Decode pf b s r =
    (case pf (fst (b_vBytes b)) of (lo, ok) \<Rightarrow>
      if \<not> ok then (Some (Wrapf ''strconv.ParseFloat lo: %w'' StrconvErr), b\<lparr>b_vlo := lo\<rparr>, r)
      else case pf (snd (b_vBytes b)) of (hi, ok') \<Rightarrow>
        (if \<not> ok' then Some StrconvErr else None, b\<lparr>b_vlo := lo, b_vhi := hi\<rparr>, r))"

definition Masses_row :: "ParseFloat \<Rightarrow> string \<Rightarrow> error + int \<times> float64" where
  "Masses_row pf l =
    (let f = Fields l in
     if length f < 2 then Inl (Errorf ''not enough fields = %d, expected > 2'')
     else case Atoi (f ! 0) of (atomType, ok) \<Rightarrow>
       if \<not> ok then Inl (Wrapf ''strconv.Atoi: %w'' StrconvErr)
       else case pf (f ! 1) of (mass, ok') \<Rightarrow>
         if \<not> ok' then Inl (Wrapf ''strconv.ParseFloat: %w'' StrconvErr)
         else Inr (atomType, mass))"

definition Masses_Decode ::
  "ParseFloat \<Rightarrow> Keys \<Rightarrow> Masses \<Rightarrow> string \<Rightarrow> Scanner \<Rightarrow> error option \<times> Masses \<times> Scanner" where
  "Masses_Decode pf ks m s r =
    (case m_types m of
       None \<Rightarrow> (Some (Errorf
         ''Key that is an instance of *Header with Name equal to NameAtomTypes is nil''), m, r)
     | Some p \<Rightarrow>
        (let m1 = m\<lparr>m_v := Some []\<rparr> in
         case Scan r of
           (False, r1) \<Rightarrow> (scanErr ''r.Scan first line: %w'' r1, m1, r1)
         | (True, r1) \<Rightarrow>
            (case getInt ks p of
               Inl e \<Rightarrow> (Some e, m1, r1)
             | Inr types \<Rightarrow>
                (case decodeRows (Masses_row pf) 0 types [] r1 of
                   (e, v, r2) \<Rightarrow> (e, m1\<lparr>m_v := Some v\<rparr>, r2)))))"

text \<open>The loop of \<^verbatim>\<open>Coeffs.Decode\<close> over \<^verbatim>\<open>f[1:]\<close>.\<close>

fun Coeffs_vals :: "ParseFloat \<Rightarrow> string list \<Rightarrow> float64 list \<Rightarrow> error + float64 list" where
  "Coeffs_vals pf [] coeffs = Inr coeffs"
| "Coeffs_vals pf (v # vs) coeffs =
    (case pf v of (coeff, ok) \<Rightarrow>
      if \<not> ok then Inl (Wrapf ''strconv.ParseFloat: %w'' StrconvErr)
      else Coeffs_vals pf vs (coeffs @ [coeff]))"

definition Coeffs_row :: "ParseFloat \<Rightarrow> string \<Rightarrow> error + int \<times> float64 list" where
  "Coeffs_row pf l =
    (let s = delComments l; f = Fields s in
     if length f < 2 then Inl (Errorf ''not enough fields = %d, want >= 2'')
     else case Atoi (f ! 0) of (t, ok) \<Rightarrow>
       if \<not> ok then Inl (Wrapf ''strconv.Atoi type: %w'' StrconvErr)
       else case Coeffs_vals pf (drop 1 f) [] of
              Inl e \<Rightarrow> Inl e
            | Inr coeffs \<Rightarrow> Inr (t, coeffs))"

definition Coeffs_Decode ::
  "ParseFloat \<Rightarrow> Keys \<Rightarrow> Coeffs \<Rightarrow> string \<Rightarrow> Scanner \<Rightarrow> error option \<times> Coeffs \<times> Scanner" where
  "Coeffs_Decode pf ks c s r =
    (case c_types c of
       None \<Rightarrow> (Some (Errorf
         ''Key that is an instance of *Header with Name equal to NamexxxTypes is nil''), c, r)
     | Some p \<Rightarrow>
        (case getInt ks p of
           Inl e \<Rightarrow> (Some e, c, r)
         | Inr types \<Rightarrow>
            (let c1 = c\<lparr>c_v := Some []\<rparr> in
             case Scan r of
               (False, r1) \<Rightarrow> (scanErr ''r.Scan first line: %w'' r1, c1, r1)
             | (True, r1) \<Rightarrow>
                (case decodeRows (Coeffs_row pf) 0 types [] r1 of
                   (e, v, r2) \<Rightarrow> (e, c1\<lparr>c_v := Some v\<rparr>, r2)))))"

text \<open>The loop of \<^verbatim>\<open>Links.Decode\<close> over \<^verbatim>\<open>f[2:l.links]\<close>.\<close>

fun Links_vals :: "string list \<Rightarrow> int list \<Rightarrow> error + int list" where
  "Links_vals [] ls = Inr ls"
| "Links_vals (v # vs) ls =
    (case Atoi v of (atom, ok) \<Rightarrow>
      if \<not> ok then Inl (Wrapf ''strconv.Atoi link: %w'' StrconvErr)
      else Links_vals vs (ls @ [atom]))"

text \<open>
  \<^verbatim>\<open>f[0]\<close>, \<^verbatim>\<open>f[1]\<close> and \<^verbatim>\<open>f[2:l.links]\<close> panic when the row is too short for them,
  which the test on the number of fields excludes when \<^verbatim>\<open>l.links\<close> is 2 or more.
\<close>

definition Links_row :: "nat \<Rightarrow> string \<Rightarrow> error + int \<times> Link" where
  "Links_row n l =
    (let f = Fields l in
     if length f < n then Inl (Errorf ''not enough fields = %d, want >= %d'')
     else if length f < 1 then Inl indexOutOfRange
     else case Atoi (f ! 0) of (ident, ok) \<Rightarrow>
       if \<not> ok then Inl (Wrapf ''strconv.Atoi id: %w'' StrconvErr)
       else if length f < 2 then Inl indexOutOfRange
       else case Atoi (f ! 1) of (t, ok') \<Rightarrow>
         if \<not> ok' then Inl (Wrapf ''strconv.Atoi type: %w'' StrconvErr)
         else if n < 2 then Inl (Panic ''slice bounds out of range'')
         else case Links_vals (take (n - 2) (drop 2 f)) [] of
                Inl e \<Rightarrow> Inl e
              | Inr ls \<Rightarrow> Inr (ident, \<lparr>link_typ = t, link_links = ls\<rparr>))"

definition Links_Decode ::
  "Keys \<Rightarrow> Links \<Rightarrow> string \<Rightarrow> Scanner \<Rightarrow> error option \<times> Links \<times> Scanner" where
  "Links_Decode ks l s r =
    (case l_nbr l of
       None \<Rightarrow> (Some (Errorf
         ''Key that is an instance of *Header that represent the number of values is nil''),
         l, r)
     | Some p \<Rightarrow>
        (case getInt ks p of
           Inl e \<Rightarrow> (Some e, l, r)
         | Inr types \<Rightarrow>
            (let l1 = l\<lparr>l_v := Some []\<rparr> in
             case Scan r of
               (False, r1) \<Rightarrow> (scanErr ''r.Scan first line: %w'' r1, l1, r1)
             | (True, r1) \<Rightarrow>
                (case decodeRows (Links_row (l_links l)) 0 types [] r1 of
                   (e, v, r2) \<Rightarrow> (e, l1\<lparr>l_v := Some v\<rparr>, r2)))))"

definition Atoms_row :: "ParseFloat \<Rightarrow> AtomStyle \<Rightarrow> string \<Rightarrow> error + int \<times> Atom" where
  "Atoms_row pf as l = (let s = delComments l; f = Fields s in AtomStyle_Decode pf as f)"

definition Atoms_Decode ::
  "ParseFloat \<Rightarrow> Keys \<Rightarrow> Atoms \<Rightarrow> string \<Rightarrow> Scanner \<Rightarrow> error option \<times> Atoms \<times> Scanner" where
  "Atoms_Decode pf ks a s r =
    (case a_atomsNbr a of
       None \<Rightarrow> (Some (Errorf
         ''Key that is an instance of *Header with Name equal to NameAtomsNbr is nil''), a, r)
     | Some p \<Rightarrow>
        (case Scan r of
           (False, r1) \<Rightarrow> (scanErr ''r.Scan first line: %w'' r1, a, r1)
         | (True, r1) \<Rightarrow>
            (let a1 = a\<lparr>a_v := Some []\<rparr> in
             case getInt ks p of
               Inl e \<Rightarrow> (Some e, a1, r1)
             | Inr atomsNbr \<Rightarrow>
                (case decodeRows (Atoms_row pf (a_atomStyle a)) 0 atomsNbr [] r1 of
                   (e, v, r2) \<Rightarrow> (e, a1\<lparr>a_v := Some v\<rparr>, r2)))))"

fun Key_Decode ::
  "ParseFloat \<Rightarrow> Keys \<Rightarrow> Key \<Rightarrow> string \<Rightarrow> Scanner \<Rightarrow> error option \<times> Key \<times> Scanner" where
  "Key_Decode pf ks (KTitle t) s r =
    (case Title_Decode t s r of (e, t', r') \<Rightarrow> (e, KTitle t', r'))"
| "Key_Decode pf ks (KHeader h) s r =
    (case Header_Decode h s r of (e, h', r') \<Rightarrow> (e, KHeader h', r'))"
| "Key_Decode pf ks (KBox b) s r =
    (case Box_Decode pf b s r of (e, b', r') \<Rightarrow> (e, KBox b', r'))"
| "Key_Decode pf ks (KMasses m) s r =
    (case Masses_Decode pf ks m s r of (e, m', r') \<Rightarrow> (e, KMasses m', r'))"
| "Key_Decode pf ks (KCoeffs c) s r =
    (case Coeffs_Decode pf ks c s r of (e, c', r') \<Rightarrow> (e, KCoeffs c', r'))"
| "Key_Decode pf ks (KAtoms a) s r =
    (case Atoms_Decode pf ks a s r of (e, a', r') \<Rightarrow> (e, KAtoms a', r'))"
| "Key_Decode pf ks (KLinks l) s r =
    (case Links_Decode ks l s r of (e, l', r') \<Rightarrow> (e, KLinks l', r'))"

section \<open>Package key: Check\<close>

definition Title_Check :: "Title \<Rightarrow> error option" where
  "Title_Check t = None"

definition Header_Check :: "Header \<Rightarrow> error option" where
  "Header_Check h =
    (if h_v h < 0 then Some (Errorf ''integer = %d is lower than zero'') else None)"

definition Box_Check :: "Box \<Rightarrow> error option" where
  "Box_Check b =
    (if f64_less (b_vhi b) (b_vlo b) then Some (Errorf ''lo = %g is greater than hi = %g'')
     else None)"

fun Masses_Check_loop :: "int \<Rightarrow> (int \<times> float64) list \<Rightarrow> error option" where
  "Masses_Check_loop types [] = None"
| "Masses_Check_loop types ((t, mass) # xs) =
    (if f64_less mass 0 then Some (Errorf ''mass of type = %d is lower than zero = %g'')
     else if t < 1 \<or> t > types then Some (Errorf ''type = %d is invalid'')
     else Masses_Check_loop types xs)"

definition Masses_Check :: "Keys \<Rightarrow> Masses \<Rightarrow> error option" where
  "Masses_Check ks m =
    (case m_types m of
       None \<Rightarrow> Some (Errorf
         ''Key that is an instance of *Header with Name equal to NameAtomTypes is nil'')
     | Some p \<Rightarrow>
        (case getInt ks p of
           Inl e \<Rightarrow> Some e
         | Inr types \<Rightarrow>
            if maplen (m_v m) \<noteq> types then
              Some (Errorf ''number of masses = %d is not equal to the number of atom types = %d'')
            else Masses_Check_loop types (entries (m_v m))))"

fun Coeffs_Check_loop :: "int \<Rightarrow> (int \<times> float64 list) list \<Rightarrow> error option" where
  "Coeffs_Check_loop types [] = None"
| "Coeffs_Check_loop types ((t, cs) # xs) =
    (if t < 1 \<or> t > types then Some (Errorf ''type = %d is invalid'')
     else Coeffs_Check_loop types xs)"

definition Coeffs_Check :: "Keys \<Rightarrow> Coeffs \<Rightarrow> error option" where
  "Coeffs_Check ks c =
    (case c_types c of
       None \<Rightarrow> Some (Errorf
         ''Key that is an instance of *Header with Name equal to NamexxxTypes is nil'')
     | Some p \<Rightarrow>
        (case getInt ks p of
           Inl e \<Rightarrow> Some e
         | Inr types \<Rightarrow>
            if maplen (c_v c) \<noteq> types then
              Some (Errorf
                ''number of sets of coefficients = %d is not equal to the number of types = %d'')
            else Coeffs_Check_loop types (entries (c_v c))))"

text \<open>
  The loop of \<^verbatim>\<open>Atoms.Check\<close>: the record visited first gives the reference \<open>n\<close> for the
  flag \<open>N\<close>.
\<close>

fun Atoms_Check_loop :: "bool \<Rightarrow> bool \<Rightarrow> int \<Rightarrow> int \<Rightarrow> (int \<times> Atom) list \<Rightarrow> error option" where
  "Atoms_Check_loop first n atomsNbr atomsTypes [] = None"
| "Atoms_Check_loop first n atomsNbr atomsTypes ((ident, atom) # xs) =
    (let n' = (if first then N atom else n) in
     if ident < 1 \<or> ident > atomsNbr then Some (Errorf ''identifier = %d is invalid'')
     else if AtomType atom < 1 \<or> AtomType atom > atomsTypes then
       Some (Errorf ''type = %d is invalid'')
     else if N atom \<noteq> n' then Some (Errorf ''n defined to %v but atom %d has n set to %v'')
     else Atoms_Check_loop False n' atomsNbr atomsTypes xs)"

definition Atoms_Check :: "Keys \<Rightarrow> Atoms \<Rightarrow> error option" where
  "Atoms_Check ks a =
    (case (a_atomTypes a, a_atomsNbr a) of
       (Some pt, Some pn) \<Rightarrow>
        (case getInt ks pn of
           Inl e \<Rightarrow> Some e
         | Inr atomsNbr \<Rightarrow>
            (case getInt ks pt of
               Inl e \<Rightarrow> Some e
             | Inr atomsTypes \<Rightarrow>
                if maplen (a_v a) \<noteq> atomsNbr then
                  Some (Errorf
                    ''number of assigned atoms = %d is not equal to the number of expected atoms = %d'')
                else if maplen (a_v a) = 0 then None
                else Atoms_Check_loop True False atomsNbr atomsTypes (entries (a_v a))))
     | _ \<Rightarrow> Some (Errorf ''one or more Keys are nil: use the Set method''))"

fun Links_Check_atoms :: "int \<Rightarrow> int list \<Rightarrow> error option" where
  "Links_Check_atoms atomsNbr [] = None"
| "Links_Check_atoms atomsNbr (atom # as) =
    (if atom < 1 \<or> atom > atomsNbr then Some (Errorf ''atom = %d is invalid'')
     else Links_Check_atoms atomsNbr as)"

fun Links_Check_loop :: "int \<Rightarrow> int \<Rightarrow> int \<Rightarrow> (int \<times> Link) list \<Rightarrow> error option" where
  "Links_Check_loop nbr types atomsNbr [] = None"
| "Links_Check_loop nbr types atomsNbr ((ident, link) # xs) =
    (if ident < 1 \<or> ident > nbr then Some (Errorf ''id = %d is invalid'')
     else if link_typ link < 1 \<or> link_typ link > types then Some (Errorf ''type = %d is invalid'')
     else case Links_Check_atoms atomsNbr (link_links link) of
            Some e \<Rightarrow> Some e
          | None \<Rightarrow> Links_Check_loop nbr types atomsNbr xs)"

definition Links_Check :: "Keys \<Rightarrow> Links \<Rightarrow> error option" where
  "Links_Check ks l =
    (case (l_types l, l_atomsNbr l, l_nbr l) of
       (Some pt, Some pa, Some pn) \<Rightarrow>
        (case getInt ks pn of
           Inl e \<Rightarrow> Some e
         | Inr nbr \<Rightarrow>
            (case getInt ks pt of
               Inl e \<Rightarrow> Some e
             | Inr types \<Rightarrow>
                (case getInt ks pa of
                   Inl e \<Rightarrow> Some e
                 | Inr atomsNbr \<Rightarrow>
                    if maplen (l_v l) \<noteq> nbr then
                      Some (Errorf
                        ''number of assigned values (ids) = %d is not equal to the number of expected values = %d'')
                    else Links_Check_loop nbr types atomsNbr (entries (l_v l)))))
     | _ \<Rightarrow> Some (Errorf ''one or more Keys are nil: use the Set method''))"

fun Key_Check :: "Keys \<Rightarrow> Key \<Rightarrow> error option" where
  "Key_Check ks (KTitle t) = Title_Check t"
| "Key_Check ks (KHeader h) = Header_Check h"
| "Key_Check ks (KBox b) = Box_Check b"
| "Key_Check ks (KMasses m) = Masses_Check ks m"
| "Key_Check ks (KCoeffs c) = Coeffs_Check ks c"
| "Key_Check ks (KAtoms a) = Atoms_Check ks a"
| "Key_Check ks (KLinks l) = Links_Check ks l"

section \<open>Package key: MakeKeys\<close>

record makeKeys =
  mk_k :: Keys
  mk_as :: AtomStyle

text \<open>
  \<^verbatim>\<open>v.SetKeys(m.New(a), m.New(b), ...)\<close> followed by \<^verbatim>\<open>m.k[name] = v\<close>: the arguments are
  made first, the error of \<^verbatim>\<open>SetKeys\<close> is dropped.
\<close>

definition wire :: "Name \<Rightarrow> Key \<Rightarrow> Key list \<Rightarrow> makeKeys \<Rightarrow> error + Key \<times> makeKeys" where
  "wire name v ds m =
    (let v' = snd (Key_SetKeys v ds) in Inr (v', m\<lparr>mk_k := (mk_k m)(name \<mapsto> v')\<rparr>))"

definition leaf :: "Name \<Rightarrow> Key \<Rightarrow> makeKeys \<Rightarrow> error + Key \<times> makeKeys" where
  "leaf name v m = Inr (v, m\<lparr>mk_k := (mk_k m)(name \<mapsto> v)\<rparr>)"

function New :: "Name \<Rightarrow> makeKeys \<Rightarrow> error + Key \<times> makeKeys" where
  "New name m =
    (case mk_k m name of
       Some v \<Rightarrow> Inr (v, m)
     | None \<Rightarrow>
        if name = NamePairCoeffs then
          (case New NameAtomTypes m of Inl e \<Rightarrow> Inl e | Inr (d, m1) \<Rightarrow>
             wire name (KCoeffs (NewCoeffs name)) [d] m1)
        else if name = NameBondCoeffs then
          (case New NameBondTypes m of Inl e \<Rightarrow> Inl e | Inr (d, m1) \<Rightarrow>
             wire name (KCoeffs (NewCoeffs name)) [d] m1)
        else if name = NameAngleCoeffs then
          (case New NameAngleTypes m of Inl e \<Rightarrow> Inl e | Inr (d, m1) \<Rightarrow>
             wire name (KCoeffs (NewCoeffs name)) [d] m1)
        else if name = NameDihedralCoeffs then
          (case New NameDihedralTypes m of Inl e \<Rightarrow> Inl e | Inr (d, m1) \<Rightarrow>
             wire name (KCoeffs (NewCoeffs name)) [d] m1)
        else if name = NameAtomsNbr \<or> name = NameBondsNbr \<or> name = NameAnglesNbr
                \<or> name = NameDihedralsNbr then
          leaf name (KHeader (NewHeader name)) m
        else if name = NameAtomTypes \<or> name = NameBondTypes \<or> name = NameAngleTypes
                \<or> name = NameDihedralTypes then
          leaf name (KHeader (NewHeader name)) m
        else if name = NameBoxX \<or> name = NameBoxY \<or> name = NameBoxZ then
          leaf name (KBox (NewBox name)) m
        else if name = NameMasses then
          (case New NameAtomTypes m of Inl e \<Rightarrow> Inl e | Inr (d, m1) \<Rightarrow>
             wire name (KMasses newMasses) [d] m1)
        else if name = NameAtoms then
          (case New NameAtomTypes m of Inl e \<Rightarrow> Inl e | Inr (d1, m1) \<Rightarrow>
           case New NameAtomsNbr m1 of Inl e \<Rightarrow> Inl e | Inr (d2, m2) \<Rightarrow>
             wire name (KAtoms (NewAtoms (mk_as m))) [d1, d2] m2)
        else if name = NameBonds then
          (case New NameAtomsNbr m of Inl e \<Rightarrow> Inl e | Inr (d1, m1) \<Rightarrow>
           case New NameBondsNbr m1 of Inl e \<Rightarrow> Inl e | Inr (d2, m2) \<Rightarrow>
           case New NameBondTypes m2 of Inl e \<Rightarrow> Inl e | Inr (d3, m3) \<Rightarrow>
             wire name (KLinks (NewLinks name 2)) [d1, d2, d3] m3)
        else if name = NameAngles then
          (case New NameAtomsNbr m of Inl e \<Rightarrow> Inl e | Inr (d1, m1) \<Rightarrow>
           case New NameAnglesNbr m1 of Inl e \<Rightarrow> Inl e | Inr (d2, m2) \<Rightarrow>
           case New NameAngleTypes m2 of Inl e \<Rightarrow> Inl e | Inr (d3, m3) \<Rightarrow>
             wire name (KLinks (NewLinks name 3)) [d1, d2, d3] m3)
        else if name = NameDihedrals then
          (case New NameAtomsNbr m of Inl e \<Rightarrow> Inl e | Inr (d1, m1) \<Rightarrow>
           case New NameDihedralsNbr m1 of Inl e \<Rightarrow> Inl e | Inr (d2, m2) \<Rightarrow>
           case New NameDihedralTypes m2 of Inl e \<Rightarrow> Inl e | Inr (d3, m3) \<Rightarrow>
             wire name (KLinks (NewLinks name 4)) [d1, d2, d3] m3)
        else if name = NameTitle then
          leaf name (KTitle newTitle) m
        else Inl (Panic ''Name provided is not implemented in this function''))"
  by pat_completeness auto
termination
  by (relation "measure (\<lambda>(name, m).
        if name \<in> {NameAtomsNbr, NameBondsNbr, NameAnglesNbr, NameDihedralsNbr, NameAtomTypes,
                    NameBondTypes, NameAngleTypes, NameDihedralTypes} then 0 else 1)") auto

declare New.simps [simp del]

fun MakeKeys_loop :: "Name list \<Rightarrow> makeKeys \<Rightarrow> error + makeKeys" where
  "MakeKeys_loop [] m = Inr m"
| "MakeKeys_loop (n # ns) m =
    (case New n m of Inl e \<Rightarrow> Inl e | Inr (v, m') \<Rightarrow> MakeKeys_loop ns m')"

definition MakeKeys :: "Name list \<Rightarrow> AtomStyle \<Rightarrow> error + Keys" where
  "MakeKeys names as =
    (case MakeKeys_loop names \<lparr>mk_k = Map.empty, mk_as = as\<rparr> of
       Inl e \<Rightarrow> Inl e
     | Inr m \<Rightarrow> Inr (mk_k m))"

section \<open>Package lmpsdat\<close>

subsection \<open>The value passed to Encode and Decode\<close>

text \<open>
  \<^verbatim>\<open>Encode\<close> and \<^verbatim>\<open>Decode\<close> take an \<^verbatim>\<open>interface{}\<close> and inspect it by reflection.  It
  is something that is not a pointer, a pointer to something that is not a struct, or a
  pointer (not \<^verbatim>\<open>nil\<close>) to a struct.  Of each field of the struct the package sees the tag
  \<^verbatim>\<open>lmpsdat\<close> (\<open>None\<close> without one), whether the field is exported, and the value, whose
  type is the type of the field.  Warnings on the standard error stream are left out.
\<close>

record field =
  f_tag :: "string option"
  f_exported :: bool
  f_val :: goval

datatype iface = NotPointer | PtrToOther | PtrToStruct "field list"

datatype gotype = TString | TInt | TFloat2 | TMasses | TCoeffs | TAtoms | TLinks | TOther

fun typeOf :: "goval \<Rightarrow> gotype" where
  "typeOf (VString s) = TString"
| "typeOf (VInt n) = TInt"
| "typeOf (VFloat2 lo hi) = TFloat2"
| "typeOf (VMasses m) = TMasses"
| "typeOf (VCoeffs m) = TCoeffs"
| "typeOf (VAtoms m) = TAtoms"
| "typeOf (VLinks m) = TLinks"
| "typeOf VOther = TOther"

text \<open>\<^verbatim>\<open>t.AssignableTo(u)\<close>, for the types the Keys hold and one type that is none of them.\<close>

definition AssignableTo :: "gotype \<Rightarrow> gotype \<Rightarrow> bool" where
  "AssignableTo t u = (t = u \<and> t \<noteq> TOther)"

text \<open>
  Go leaves open the order in which \<^verbatim>\<open>range\<close> visits a map.  Each \<^verbatim>\<open>range\<close> over a map
  of Names takes the order from here: a list of Names, of which those in the map are visited
  in turn.  \<open>fieldsOrd\<close> is for \<^verbatim>\<open>range nFields\<close>, \<open>keysOrd\<close> for \<^verbatim>\<open>range keys\<close> in the loop
  of \<^verbatim>\<open>Check\<close>, and \<open>headOrd\<close> and \<open>bodyOrd\<close> for the two calls of \<^verbatim>\<open>keyDecode\<close> on a line,
  given the number of lines still unread, so that every line can have its own order.
\<close>

record Order =
  fieldsOrd :: "Name list"
  keysOrd :: "Name list"
  headOrd :: "nat \<Rightarrow> Name list"
  bodyOrd :: "nat \<Rightarrow> Name list"

subsection \<open>createNames, headBody, keyDecode\<close>

fun createNames_loop ::
  "field list \<Rightarrow> nat \<Rightarrow> AtomStyle \<Rightarrow> Name list \<Rightarrow> (Name \<Rightarrow> nat option)
    \<Rightarrow> AtomStyle \<times> Name list \<times> (Name \<Rightarrow> nat option)" where
  "createNames_loop [] i atomStyle names namesFields = (atomStyle, names, namesFields)"
| "createNames_loop (f # fs) i atomStyle names namesFields =
    (case f_tag f of
       None \<Rightarrow> createNames_loop fs (i + 1) atomStyle names namesFields
     | Some v \<Rightarrow>
        (case (if HasPrefix v NameAtoms then
                 (case IndexRune v (CHR '','') of
                    Some idx \<Rightarrow>
                      (let as = TrimSpace (drop (idx + 1) v)
                       in (if IsAtomStyle as
                           then (case NewAtomStyle as of Some st \<Rightarrow> st | None \<Rightarrow> atomStyle)
                           else atomStyle,
                           TrimSpace (take idx v)))
                  | None \<Rightarrow> (atomStyle, v))
               else (atomStyle, v)) of
           (atomStyle', n) \<Rightarrow>
             if IsName n then
               createNames_loop fs (i + 1) atomStyle' (names @ [n]) (namesFields(n \<mapsto> i))
             else createNames_loop fs (i + 1) atomStyle' names namesFields))"

definition createNames :: "field list \<Rightarrow> error + (Name \<Rightarrow> nat option) \<times> Keys" where
  "createNames flds =
    (case createNames_loop flds 0 AtomStyleFull [] Map.empty of
       (atomStyle, names, namesFields) \<Rightarrow>
         (case MakeKeys names atomStyle of
            Inl e \<Rightarrow> Inl e
          | Inr keys \<Rightarrow> Inr (namesFields, keys)))"

text \<open>
  \<^verbatim>\<open>headBody\<close> gives two maps with the same pointers as \<^verbatim>\<open>keys\<close>: here, the two sets of
  Names, the Keys staying in the store.
\<close>

definition headBody :: "Keys \<Rightarrow> (Name \<Rightarrow> bool) \<times> (Name \<Rightarrow> bool)" where
  "headBody keys =
    ((\<lambda>n. case keys n of Some k \<Rightarrow> IsHeader k | None \<Rightarrow> False),
     (\<lambda>n. case keys n of Some k \<Rightarrow> \<not> IsHeader k | None \<Rightarrow> False))"

text \<open>
  \<^verbatim>\<open>keyDecode\<close>: \<open>ord\<close> is the order of the visit, \<open>kset\<close> the Names of the map, \<open>ks\<close> the
  store.  \<^verbatim>\<open>Keyword\<close> may write into the Key it is asked, also when it answers no.
\<close>

fun keyDecode ::
  "ParseFloat \<Rightarrow> string \<Rightarrow> Name list \<Rightarrow> (Name \<Rightarrow> bool) \<Rightarrow> Keys \<Rightarrow> Scanner
    \<Rightarrow> bool \<times> error option \<times> (Name \<Rightarrow> bool) \<times> Keys \<times> Scanner" where
  "keyDecode pf s [] kset ks r = (False, None, kset, ks, r)"
| "keyDecode pf s (n # ord) kset ks r =
    (if \<not> kset n then keyDecode pf s ord kset ks r
     else case ks n of
       None \<Rightarrow> keyDecode pf s ord kset ks r
     | Some k \<Rightarrow>
        (case Key_Keyword k s of
           (False, k') \<Rightarrow> keyDecode pf s ord kset (ks(n \<mapsto> k')) r
         | (True, k') \<Rightarrow>
            (case Key_Decode pf (ks(n \<mapsto> k')) k' s r of
               (Some e, k'', r') \<Rightarrow>
                 (True, Some (wrapf ''k.Decode for Key = %s: %w'' e), kset, ks(n \<mapsto> k''), r')
             | (None, k'', r') \<Rightarrow>
                 (True, None, kset(n := False), ks(n \<mapsto> k''), r'))))"

subsection \<open>Decoder.Decode\<close>

text \<open>
  No \<^verbatim>\<open>Decode\<close> of a Key gives lines back to the scanner; the main loop of
  \<^verbatim>\<open>Decoder.Decode\<close> ends for this reason.
\<close>

lemma Scan_toks_le: "Scan r = (b, r') \<Longrightarrow> length (toks r') \<le> length (toks r)"
  by (auto simp: Scan_def split: list.splits)

lemma Scan_toks_less: "Scan r = (True, r') \<Longrightarrow> length (toks r') < length (toks r)"
  by (auto simp: Scan_def split: list.splits)

lemma decodeRows_toks:
  "decodeRows row i n v r = (e, v', r') \<Longrightarrow> length (toks r') \<le> length (toks r)"
proof (induction row i n v r arbitrary: e v' r' rule: decodeRows.induct)
  case (1 row i n v r)
  show ?case
  proof (cases "i < n")
    case False
    with "1.prems" show ?thesis by (simp add: decodeRows.simps)
  next
    case True
    obtain b r1 where s: "Scan r = (b, r1)" by (cases "Scan r")
    have le: "length (toks r1) \<le> length (toks r)" using s by (rule Scan_toks_le)
    show ?thesis
    proof (cases b)
      case False
      with "1.prems" True s le show ?thesis by (simp add: decodeRows.simps)
    next
      case b: True
      show ?thesis
      proof (cases "row (line r1)")
        case (Inl x)
        with "1.prems" True s b le show ?thesis by (simp add: decodeRows.simps)
      next
        case (Inr kx)
        obtain k x where kx: "kx = (k, x)" by (cases kx)
        have "decodeRows row (i + 1) n (mapPut k x v) r1 = (e, v', r')"
          using "1.prems" True s b Inr kx by (simp add: decodeRows.simps)
        from "1.IH"[OF True _ _ _ _ this] s b Inr kx
        have "length (toks r') \<le> length (toks r1)" by simp
        with le show ?thesis by simp
      qed
    qed
  qed
qed

lemma Key_Decode_toks:
  "Key_Decode pf ks k s r = (e, k', r') \<Longrightarrow> length (toks r') \<le> length (toks r)"
  apply (cases k)
  apply (auto simp: Title_Decode_def Header_Decode_def Box_Decode_def Masses_Decode_def
      Coeffs_Decode_def Atoms_Decode_def Links_Decode_def Let_def
      split: prod.splits option.splits sum.splits if_splits bool.splits
      dest!: Scan_toks_le decodeRows_toks)
  done

lemma keyDecode_toks:
  "keyDecode pf s ord kset ks r = (ok, e, kset', ks', r') \<Longrightarrow> length (toks r') \<le> length (toks r)"
  by (induction ord arbitrary: ks)
     (auto split: if_splits option.splits prod.splits bool.splits dest: Key_Decode_toks)

text \<open>
  The loop \<^verbatim>\<open>for r.Scan() { ... }\<close> with the test of \<^verbatim>\<open>r.Err()\<close> after it.
\<close>

function decodeLoop ::
  "ParseFloat \<Rightarrow> Order \<Rightarrow> bool \<Rightarrow> (Name \<Rightarrow> bool) \<Rightarrow> (Name \<Rightarrow> bool) \<Rightarrow> Keys \<Rightarrow> Scanner
    \<Rightarrow> error option \<times> Keys \<times> Scanner" where
  "decodeLoop pf od inHeader kHead kBody ks r =
    (case Scan r of
       (False, r0) \<Rightarrow> (scanErr ''r.Scan: %w'' r0, ks, r0)
     | (True, r0) \<Rightarrow>
        (case (if inHeader then keyDecode pf (line r0) (headOrd od (length (toks r0))) kHead ks r0
               else (False, None, kHead, ks, r0)) of
           (ok, Some e, kHead', ks1, r1) \<Rightarrow> (Some e, ks1, r1)
         | (True, None, kHead', ks1, r1) \<Rightarrow> decodeLoop pf od inHeader kHead' kBody ks1 r1
         | (False, None, kHead', ks1, r1) \<Rightarrow>
            (case keyDecode pf (line r0) (bodyOrd od (length (toks r0))) kBody ks1 r1 of
               (ok', Some e, kBody', ks2, r2) \<Rightarrow> (Some e, ks2, r2)
             | (ok', None, kBody', ks2, r2) \<Rightarrow>
                 decodeLoop pf od (if ok' then False else inHeader) kHead' kBody' ks2 r2)))"
  by pat_completeness auto
termination
  apply (relation "measure (\<lambda>(pf, od, inHeader, kHead, kBody, ks, r). length (toks r))")
    apply simp
   apply (auto split: if_splits dest!: keyDecode_toks[OF sym] Scan_toks_less[OF sym])
  done

declare decodeLoop.simps [simp del]

text \<open>The loop \<^verbatim>\<open>for _, k := range keys\<close> that calls \<^verbatim>\<open>Check\<close>.\<close>

fun Check_loop :: "Name list \<Rightarrow> Keys \<Rightarrow> error option" where
  "Check_loop [] ks = None"
| "Check_loop (n # ns) ks =
    (case ks n of
       None \<Rightarrow> Check_loop ns ks
     | Some k \<Rightarrow>
        (case Key_Check ks k of
           Some e \<Rightarrow> Some (wrapf ''k.Check for Key = %s: %w'' e)
         | None \<Rightarrow> Check_loop ns ks))"

text \<open>
  \<^verbatim>\<open>Decoder.Decode\<close> up to the end of the loop of \<^verbatim>\<open>Check\<close>: an error, \<open>Inr None\<close> when
  the input has no line (the method returns \<^verbatim>\<open>nil\<close> there), or the map \<^verbatim>\<open>nFields\<close> and
  the Keys, read and checked.
\<close>

definition Decode_keys ::
  "ParseFloat \<Rightarrow> Order \<Rightarrow> field list \<Rightarrow> Reader
    \<Rightarrow> error + ((Name \<Rightarrow> nat option) \<times> Keys) option" where
  "Decode_keys pf od flds rd =
    (case createNames flds of
       Inl e \<Rightarrow> Inl e
     | Inr (nFields, keys) \<Rightarrow>
        (case headBody keys of (kHead, kBody) \<Rightarrow>
          (case Scan (NewScanner rd) of
             (False, r) \<Rightarrow> (if err r then Inl (Wrapf ''r.Scan title: %w'' ReadErr) else Inr None)
           | (True, r) \<Rightarrow>
              (case (case keys NameTitle of
                       Some k \<Rightarrow>
                         (case Key_Set k (VString (line r)) of
                            (e, k') \<Rightarrow> (e, keys(NameTitle \<mapsto> k')))
                     | None \<Rightarrow> (None, keys)) of
                 (Some e, keys1) \<Rightarrow> Inl (wrapf ''k.Set for Key = %s: %w'' e)
               | (None, keys1) \<Rightarrow>
                  (case decodeLoop pf od True kHead kBody keys1 r of
                     (Some e, keys2, r') \<Rightarrow> Inl e
                   | (None, keys2, r') \<Rightarrow>
                      (case Check_loop (keysOrd od) keys2 of
                         Some e \<Rightarrow> Inl e
                       | None \<Rightarrow> Inr (Some (nFields, keys2))))))))"

text \<open>
  The last loop of \<^verbatim>\<open>Decoder.Decode\<close>, \<^verbatim>\<open>for n, f := range nFields\<close>, which stores the
  values of the Keys in the fields of the struct.
\<close>

fun Decode_assign ::
  "Name list \<Rightarrow> (Name \<Rightarrow> nat option) \<Rightarrow> Keys \<Rightarrow> field list \<Rightarrow> error option \<times> field list" where
  "Decode_assign [] nFields keys flds = (None, flds)"
| "Decode_assign (n # ns) nFields keys flds =
    (case nFields n of
       None \<Rightarrow> Decode_assign ns nFields keys flds
     | Some f \<Rightarrow>
        (case keys n of
           None \<Rightarrow> (Some nilDeref, flds)
         | Some k \<Rightarrow>
            (let v = Key_Get k in
             if length flds \<le> f then (Some (Panic ''reflect: Field index out of range''), flds)
             else if \<not> AssignableTo (typeOf (f_val (flds ! f))) (typeOf v) then
               (Some (Errorf ''Key = %s has type = %s that is not assignable to type = %s''), flds)
             else if \<not> f_exported (flds ! f) then
               (Some (Panic ''reflect.Value.Set using value obtained using unexported field''),
                flds)
             else Decode_assign ns nFields keys (flds[f := (flds ! f)\<lparr>f_val := v\<rparr>]))))"

text \<open>
  \<^verbatim>\<open>Decoder.Decode(v)\<close> on the reader of the decoder: the error returned (\<open>None\<close> is
  \<^verbatim>\<open>nil\<close>) and the value \<open>v\<close> points to afterwards.
\<close>

definition Decoder_Decode ::
  "ParseFloat \<Rightarrow> Order \<Rightarrow> iface \<Rightarrow> Reader \<Rightarrow> error option \<times> iface" where
  "Decoder_Decode pf od v rd =
    (case v of
       NotPointer \<Rightarrow> (Some (Errorf ''interface passed is not a pointer''), v)
     | PtrToOther \<Rightarrow> (Some (Errorf ''interface passed is not a pointer of a struct''), v)
     | PtrToStruct flds \<Rightarrow>
        (case Decode_keys pf od flds rd of
           Inl e \<Rightarrow> (Some e, v)
         | Inr None \<Rightarrow> (None, v)
         | Inr (Some (nFields, keys)) \<Rightarrow>
            (case Decode_assign (fieldsOrd od) nFields keys flds of
               (e, flds') \<Rightarrow> (e, PtrToStruct flds'))))"

subsection \<open>Encoder.Encode\<close>

text \<open>
  The first loop of \<^verbatim>\<open>Encoder.Encode\<close>, \<^verbatim>\<open>for n, f := range nFields\<close>: it calls \<^verbatim>\<open>Set\<close>
  and then \<^verbatim>\<open>SetKeysVal\<close> on the Key of each field in turn.
\<close>

fun Encode_assign ::
  "Name list \<Rightarrow> (Name \<Rightarrow> nat option) \<Rightarrow> field list \<Rightarrow> Keys \<Rightarrow> error option \<times> Keys" where
  "Encode_assign [] nFields flds keys = (None, keys)"
| "Encode_assign (n # ns) nFields flds keys =
    (case nFields n of
       None \<Rightarrow> Encode_assign ns nFields flds keys
     | Some f \<Rightarrow>
        if length flds \<le> f then (Some (Panic ''reflect: Field index out of range''), keys)
        else if \<not> f_exported (flds ! f) then
          (Some (Panic ''reflect.Value.Interface: cannot return value obtained from unexported field or method''),
           keys)
        else
          (case keys n of
             None \<Rightarrow> (Some nilDeref, keys)
           | Some k \<Rightarrow>
              (case Key_Set k (f_val (flds ! f)) of
                 (Some e, k') \<Rightarrow> (Some (wrapf ''k.Set for Key = %s: %w'' e), keys(n \<mapsto> k'))
               | (None, k') \<Rightarrow>
                  (case Key_SetKeysVal (keys(n \<mapsto> k')) k' of
                     (Some e, keys') \<Rightarrow>
                       if \<not> isUnsupported e then
                         (Some (wrapf ''k.SetKeysVal for Key = %s: %w'' e), keys')
                       else Encode_assign ns nFields flds keys'
                   | (None, keys') \<Rightarrow> Encode_assign ns nFields flds keys'))))"

text \<open>
  A group of header lines: each Key of the list that exists is written; \<open>isSet\<close> (the
  variable \<^verbatim>\<open>set\<close>) tells whether one was.
\<close>

fun Encode_group ::
  "FormatG \<Rightarrow> Name list \<Rightarrow> Keys \<Rightarrow> bool \<Rightarrow> Writer \<Rightarrow> error option \<times> bool \<times> Writer" where
  "Encode_group fg [] keys isSet w = (None, isSet, w)"
| "Encode_group fg (n # ns) keys isSet w =
    (case keys n of
       None \<Rightarrow> Encode_group fg ns keys isSet w
     | Some k \<Rightarrow>
        (case Key_Encode fg k w of
           (Some e, w') \<Rightarrow> (Some (wrapf ''k.Encode for Key = %s: %w'' e), isSet, w')
         | (None, w') \<Rightarrow> Encode_group fg ns keys True w'))"

definition Encode_headers ::
  "FormatG \<Rightarrow> Name list \<Rightarrow> Keys \<Rightarrow> Writer \<Rightarrow> error option \<times> Writer" where
  "Encode_headers fg names keys w =
    (case Encode_group fg names keys False w of
       (Some e, isSet, w') \<Rightarrow> (Some e, w')
     | (None, isSet, w') \<Rightarrow> (None, if isSet then snd (Fprint w' NL) else w'))"

fun Encode_tables ::
  "FormatG \<Rightarrow> Name list \<Rightarrow> Keys \<Rightarrow> Writer \<Rightarrow> error option \<times> Writer" where
  "Encode_tables fg [] keys w = (None, w)"
| "Encode_tables fg (n # ns) keys w =
    (case keys n of
       None \<Rightarrow> Encode_tables fg ns keys w
     | Some k \<Rightarrow>
        (case Key_Encode fg k w of
           (Some e, w') \<Rightarrow> (Some (wrapf ''k.Encode for Key = %s: %w'' e), w')
         | (None, w') \<Rightarrow> Encode_tables fg ns keys (snd (Fprint w' NL))))"

text \<open>\<^verbatim>\<open>title = k.Get().(string)\<close> when there is a Key for the Title, else the empty string.\<close>

definition titleOf :: "Keys \<Rightarrow> error + string" where
  "titleOf keys =
    (case keys NameTitle of
       None \<Rightarrow> Inr []
     | Some k \<Rightarrow>
        (case Key_Get k of
           VString t \<Rightarrow> Inr t
         | _ \<Rightarrow> Inl (Panic ''interface conversion: interface {} is not string'')))"

text \<open>
  \<^verbatim>\<open>Encoder.Encode\<close> after the first loop: the loop of \<^verbatim>\<open>Check\<close>, then the title, the
  three groups of header lines and the tables.
\<close>

definition Encode_write ::
  "FormatG \<Rightarrow> Order \<Rightarrow> Keys \<Rightarrow> Writer \<Rightarrow> error option \<times> Writer" where
  "Encode_write fg od keys w =
    (case Check_loop (keysOrd od) keys of
       Some e \<Rightarrow> (Some e, w)
     | None \<Rightarrow>
        (case titleOf keys of
           Inl e \<Rightarrow> (Some e, w)
         | Inr title \<Rightarrow>
            (let w0 = snd (Fprint w (title @ NL @ NL)) in
             case Encode_headers fg
                    [NameAtomsNbr, NameBondsNbr, NameAnglesNbr, NameDihedralsNbr] keys w0 of
               (Some e, w1) \<Rightarrow> (Some e, w1)
             | (None, w1) \<Rightarrow>
                (case Encode_headers fg
                        [NameAtomTypes, NameBondTypes, NameAngleTypes, NameDihedralTypes]
                        keys w1 of
                   (Some e, w2) \<Rightarrow> (Some e, w2)
                 | (None, w2) \<Rightarrow>
                    (case Encode_headers fg [NameBoxX, NameBoxY, NameBoxZ] keys w2 of
                       (Some e, w3) \<Rightarrow> (Some e, w3)
                     | (None, w3) \<Rightarrow>
                         Encode_tables fg
                           [NameMasses, NamePairCoeffs, NameBondCoeffs, NameAngleCoeffs,
                            NameDihedralCoeffs, NameAtoms, NameBonds, NameAngles, NameDihedrals]
                           keys w3)))))"

text \<open>
  \<^verbatim>\<open>Encoder.Encode(v)\<close> on the writer of the encoder: the error returned and the writer
  afterwards.
\<close>

definition Encoder_Encode ::
  "FormatG \<Rightarrow> Order \<Rightarrow> iface \<Rightarrow> Writer \<Rightarrow> error option \<times> Writer" where
  "Encoder_Encode fg od v w =
    (case v of
       NotPointer \<Rightarrow> (Some (Errorf ''interface passed is not a pointer''), w)
     | PtrToOther \<Rightarrow> (Some (Errorf ''interface passed is not a pointer of a struct''), w)
     | PtrToStruct flds \<Rightarrow>
        (case createNames flds of
           Inl e \<Rightarrow> (Some e, w)
         | Inr (nFields, keys) \<Rightarrow>
            (case Encode_assign (fieldsOrd od) nFields flds keys of
               (Some e, keys') \<Rightarrow> (Some e, w)
             | (None, keys') \<Rightarrow> Encode_write fg od keys' w)))"

section \<open>Predicates used in the statements\<close>

text \<open>The Keys on which the type assertion \<^verbatim>\<open>key.(*Header)\<close> succeeds.\<close>

fun isHeaderKey :: "Key \<Rightarrow> bool" where
  "isHeaderKey (KHeader h) = True"
| "isHeaderKey k = False"

text \<open>An exported field of a struct with the tag \<^verbatim>\<open>lmpsdat\<close> and a value.\<close>

definition fieldOf :: "string \<Rightarrow> goval \<Rightarrow> field" where
  "fieldOf tag v = \<lparr>f_tag = Some tag, f_exported = True, f_val = v\<rparr>"


section \<open>Properties\<close>

subsection \<open>Keyword of the tables (claim C4)\<close>

lemma HasPrefix_iff: "HasPrefix s p \<longleftrightarrow> (\<exists>rest. s = p @ rest)"
  by (induction s p rule: HasPrefix.induct) auto

text \<open>
  Claim C4, as amended.  For every table Key (Masses, Coeffs, Atoms, Links) and every line,
  \<^verbatim>\<open>Keyword\<close> succeeds if and only if the text of the line, after its leading white space is
  discarded, begins with the Name of the table; what follows the Name is not looked at.
\<close>

theorem table_Keyword_is_prefix_test:
  "(Masses_Keyword m s \<longleftrightarrow> (\<exists>rest. TrimLeftSpace s = NameMasses @ rest))
   \<and> (Coeffs_Keyword c s \<longleftrightarrow> (\<exists>rest. TrimLeftSpace s = c_name c @ rest))
   \<and> (Atoms_Keyword a s \<longleftrightarrow> (\<exists>rest. TrimLeftSpace s = NameAtoms @ rest))
   \<and> (Links_Keyword l s \<longleftrightarrow> (\<exists>rest. TrimLeftSpace s = l_name l @ rest))"
  by (simp add: Masses_Keyword_def Coeffs_Keyword_def Atoms_Keyword_def Links_Keyword_def
      keyword_def HasPrefix_iff)

text \<open>
  Claim C4 as stated fails: the line \<^verbatim>\<open>Masses foo\<close> is not exactly the Name \<^verbatim>\<open>Masses\<close>, and
  \<^verbatim>\<open>Masses.Keyword\<close> accepts it.
\<close>

theorem table_Keyword_exact_counterexample:
  "Masses_Keyword newMasses ''Masses foo'' \<and> TrimLeftSpace ''Masses foo'' \<noteq> NameMasses"
  by (simp add: Masses_Keyword_def keyword_def isSpaceLen.simps)

text \<open>The amended claim at two lines: one with text after the Name, one that stops short.\<close>

theorem table_Keyword_is_prefix_test_witness:
  "Masses_Keyword newMasses ''  Masses # atom types''
   \<and> \<not> Atoms_Keyword (NewAtoms AtomStyleFull) ''Atom''"
  using table_Keyword_is_prefix_test[of newMasses "''  Masses # atom types''"]
    table_Keyword_is_prefix_test[of _ "''Atom''" _ "NewAtoms AtomStyleFull"]
  by (simp add: isSpaceLen.simps)

subsection \<open>Encode of an empty table and of a Header (claim C7)\<close>


subsection \<open>SetKeys (claim C8)\<close>

lemma Atoms_SetKeys_ok:
  "fst (Atoms_SetKeys a k) = None \<longleftrightarrow>
     list_all (\<lambda>x. isHeaderKey x \<and> (Key_Name x = NameAtomsNbr \<or> Key_Name x = NameAtomTypes)) k"
  by (induction a k rule: Atoms_SetKeys.induct) auto

lemma Links_SetKeys_ok: "fst (Links_SetKeys l k) = None \<longleftrightarrow> list_all isHeaderKey k"
  by (induction l k rule: Links_SetKeys.induct) auto

lemma Masses_SetKeys_ok:
  "fst (Masses_SetKeys m k) = None \<longleftrightarrow>
     length k = 1 \<and> list_all (\<lambda>x. isHeaderKey x \<and> Key_Name x = NameAtomTypes) k"
  by (cases k; cases "hd k") (auto simp: Masses_SetKeys_def Let_def)

lemma Coeffs_SetKeys_ok:
  "fst (Coeffs_SetKeys c k) = None \<longleftrightarrow> length k = 1 \<and> list_all isHeaderKey k"
  by (cases k; cases "hd k") (auto simp: Coeffs_SetKeys_def)

text \<open>
  Claim C8, as amended.  \<^verbatim>\<open>SetKeys\<close> of Masses succeeds exactly on one Key that is a Header
  named \<^verbatim>\<open>atom types\<close>, and \<^verbatim>\<open>SetKeys\<close> of Coeffs exactly on one Key that is a Header.
  \<^verbatim>\<open>SetKeys\<close> of Atoms succeeds exactly when every Key given is a Header named \<^verbatim>\<open>atoms\<close>
  or \<^verbatim>\<open>atom types\<close>, and \<^verbatim>\<open>SetKeys\<close> of Links exactly when every Key given is a Header:
  both accept any number of such Keys, none included.  \<^verbatim>\<open>SetKeys\<close> of Title, Header and Box
  returns \<^verbatim>\<open>ErrUnsupported\<close> for every list of Keys, empty or not.
\<close>

theorem SetKeys_errors:
  "(fst (Masses_SetKeys m k) = None \<longleftrightarrow>
      length k = 1 \<and> list_all (\<lambda>x. isHeaderKey x \<and> Key_Name x = NameAtomTypes) k)
   \<and> (fst (Coeffs_SetKeys c k) = None \<longleftrightarrow> length k = 1 \<and> list_all isHeaderKey k)
   \<and> (fst (Atoms_SetKeys a k) = None \<longleftrightarrow>
      list_all (\<lambda>x. isHeaderKey x \<and> (Key_Name x = NameAtomsNbr \<or> Key_Name x = NameAtomTypes)) k)
   \<and> (fst (Links_SetKeys l k) = None \<longleftrightarrow> list_all isHeaderKey k)
   \<and> fst (Title_SetKeys t k) = Some ErrUnsupported
   \<and> fst (Header_SetKeys h k) = Some ErrUnsupported
   \<and> fst (Box_SetKeys b k) = Some ErrUnsupported"
  using Masses_SetKeys_ok Coeffs_SetKeys_ok Atoms_SetKeys_ok Links_SetKeys_ok
  by (simp add: Title_SetKeys_def Header_SetKeys_def Box_SetKeys_def)

text \<open>
  Claim C8 as stated fails: a Links Key given no Key at all, or one Key, instead of its
  three, returns no error; and a Title returns the same \<^verbatim>\<open>ErrUnsupported\<close> for an empty
  list as for a list with a Key in it.
\<close>

theorem SetKeys_errors_counterexample:
  "fst (Links_SetKeys (NewLinks NameBonds 2) []) = None
   \<and> fst (Links_SetKeys (NewLinks NameBonds 2) [KHeader (NewHeader NameAtomsNbr)]) = None
   \<and> fst (Title_SetKeys newTitle []) = fst (Title_SetKeys newTitle [KTitle newTitle])"
  by (simp add: Title_SetKeys_def)

text \<open>The amended claim at three calls.\<close>

theorem SetKeys_errors_witness:
  "fst (Links_SetKeys (NewLinks NameBonds 2)
          [KHeader (NewHeader NameAtomsNbr), KHeader (NewHeader NameBondsNbr)]) = None
   \<and> fst (Masses_SetKeys newMasses [KHeader (NewHeader NameAtomsNbr)]) \<noteq> None
   \<and> fst (Atoms_SetKeys (NewAtoms AtomStyleFull) [KTitle newTitle]) \<noteq> None"
  using SetKeys_errors[of newMasses "[KHeader (NewHeader NameAtomsNbr)]"]
    SetKeys_errors[of _ "[KHeader (NewHeader NameAtomsNbr), KHeader (NewHeader NameBondsNbr)]"
      _ _ "NewLinks NameBonds 2"]
    SetKeys_errors[of _ "[KTitle newTitle]" _ "NewAtoms AtomStyleFull"]
  by (simp add: NewHeader_def)

subsection \<open>Decode of an atom style (claim C2)\<close>

text \<open>
  Claim C2 fails on the code.  \<^verbatim>\<open>Decode\<close> of both atom styles returns an error for fewer
  fields than its minimum (7 for full, 5 for atomic) and for a first field that is not an
  integer, as the claim says; in every other case, the one in which the claim promises the
  identifier and the Atom, it panics on the first store through the \<^verbatim>\<open>nil\<close> pointer
  \<^verbatim>\<open>atom\<close>.  It never returns an Atom.
\<close>

theorem AtomStyle_Decode_never_returns_an_Atom:
  "atomStyleFull_Decode pf f =
     (if length f < 7 then Inl (Errorf ''not enough fields = %d, want >= 7'')
      else if \<not> snd (Atoi (f ! 0)) then Inl (Wrapf ''strconv.Atoi id: %w'' StrconvErr)
      else Inl nilDeref)
   \<and> atomStyleAtomic_Decode pf f =
     (if length f < 5 then Inl (Errorf ''not enough fields = %d, want >= 5'')
      else if \<not> snd (Atoi (f ! 0)) then Inl (Wrapf ''strconv.Atoi id: %w'' StrconvErr)
      else Inl nilDeref)"
  by (simp add: atomStyleFull_Decode_def atomStyleAtomic_Decode_def setInt_def
      split: prod.splits)

text \<open>The row of Scenario A of the specification, with seven well-formed fields.\<close>

theorem AtomStyle_Decode_never_returns_an_Atom_witness:
  "atomStyleFull_Decode (\<lambda>s. (0, True)) [''1'', ''1'', ''1'', ''0.0'', ''0.5'', ''0.5'', ''0.5'']
     = Inl nilDeref
   \<and> atomStyleAtomic_Decode (\<lambda>s. (0, True)) [''1'', ''1'', ''0.5'', ''0.5'', ''0.5'']
     = Inl nilDeref"
  using AtomStyle_Decode_never_returns_an_Atom[of "\<lambda>s. (0, True)"
      "[''1'', ''1'', ''1'', ''0.0'', ''0.5'', ''0.5'', ''0.5'']"]
    AtomStyle_Decode_never_returns_an_Atom[of "\<lambda>s. (0, True)"
      "[''1'', ''1'', ''0.5'', ''0.5'', ''0.5'']"]
  by (simp add: Atoi_def isDigit_def digitsVal_def digitVal_def)

subsection \<open>Check of the Atoms table (claim C3)\<close>










subsection \<open>Rules for evaluating the model on a given input\<close>

lemmas str_simps = isSpaceLen.simps isSpaceLenRev.simps Fields_def flushField_def TrimSpace_def
  Atoi_def isDigit_def digitsVal_def digitVal_def delComments_def Let_def

lemmas mk_simps = createNames_def IsAtomStyle_def NewAtomStyle_def ListAtomStyles_def IsName_def
  ListNames_def MakeKeys_def New.simps wire_def leaf_def NewAtoms_def NewHeader_def NewBox_def
  NewCoeffs_def NewLinks_def newMasses_def newTitle_def Masses_SetKeys_def Coeffs_SetKeys_def
  HasSuffix_def fieldOf_def

lemmas scan_simps = NewScanner_def dropCR_def Scan_def scanErr_def

lemmas kw_simps = keyword_def keywordHeader_def Header_Keyword_def Box_Keyword_def
  Title_Keyword_def Masses_Keyword_def Coeffs_Keyword_def Atoms_Keyword_def Links_Keyword_def

lemmas dec_simps = decodeRows.simps Title_Decode_def Header_Decode_def Box_Decode_def
  Masses_row_def Masses_Decode_def Coeffs_row_def Coeffs_Decode_def Links_row_def
  Links_Decode_def Atoms_row_def Atoms_Decode_def getInt_def atomStyleFull_Decode_def
  atomStyleAtomic_Decode_def setInt_def setFloat_def setN_def decodeImages_def returnAtom_def
  wrapf_def Decoder_Decode_def Decode_keys_def headBody_def decodeLoop.simps AssignableTo_def

lemmas set_simps = Title_Set_def Header_Set_def Box_Set_def Masses_Set_def Coeffs_Set_def
  Atoms_Set_def Links_Set_def Masses_SetKeysVal_def Coeffs_SetKeysVal_def Atoms_SetKeysVal_def
  Links_SetKeysVal_def setIntAt_def maplen_def entries_def

lemmas chk_simps = Title_Check_def Header_Check_def Box_Check_def Masses_Check_def
  Coeffs_Check_def Atoms_Check_def Links_Check_def getInt_def maplen_def entries_def
  f64_less_def isNaN_def f64_rank_def wrapf_def

lemmas enc_simps = Title_Encode_def Header_Encode_def Box_Encode_def Masses_Encode_def
  Coeffs_Encode_def Links_Encode_def Atoms_Encode_def Fprint_def fmtD_def showNat.simps
  digitChar_def sortIntsMap_def Encode_headers_def titleOf_def Encode_write_def wrapf_def
  Encoder_Encode_def

subsection \<open>Decoder.Decode on an input without lines (claim C9)\<close>

text \<open>\<^verbatim>\<open>MakeKeys\<close> does not panic on the Names that \<^verbatim>\<open>createNames\<close> gives it.\<close>

lemma New_Header_eq:
  assumes "name \<in> {NameAtomsNbr, NameBondsNbr, NameAnglesNbr, NameDihedralsNbr, NameAtomTypes,
                     NameBondTypes, NameAngleTypes, NameDihedralTypes}"
  shows "New name m =
    (case mk_k m name of Some v \<Rightarrow> Inr (v, m) | None \<Rightarrow> leaf name (KHeader (NewHeader name)) m)"
  using assms by (elim insertE emptyE; hypsubst; (subst New.simps; simp))

lemma New_Header_Inr:
  assumes "name \<in> {NameAtomsNbr, NameBondsNbr, NameAnglesNbr, NameDihedralsNbr, NameAtomTypes,
                     NameBondTypes, NameAngleTypes, NameDihedralTypes}"
  shows "\<exists>v m'. New name m = Inr (v, m')"
  by (simp add: New_Header_eq[OF assms] leaf_def split: option.splits)

lemma New_Inr:
  assumes "IsName name"
  shows "\<exists>v m'. New name m = Inr (v, m')"
proof -
  from assms have "name \<in> set ListNames" by (simp only: IsName_def)
  then show ?thesis
    unfolding ListNames_def list.set
    by (elim insertE emptyE; hypsubst;
        (subst New.simps; simp add: New_Header_eq leaf_def wire_def Let_def split: option.splits))
qed

lemma MakeKeys_loop_Inr: "list_all IsName names \<Longrightarrow> \<exists>m'. MakeKeys_loop names m = Inr m'"
proof (induction names arbitrary: m)
  case Nil
  show ?case by simp
next
  case (Cons n ns)
  from Cons.prems have "IsName n" and ns: "list_all IsName ns" by simp_all
  then obtain v m1 where "New n m = Inr (v, m1)" using New_Inr by blast
  with Cons.IH[OF ns, of m1] show ?case by simp
qed

lemma createNames_loop_names:
  "list_all IsName names \<Longrightarrow>
     list_all IsName (fst (snd (createNames_loop flds i as names nf)))"
  by (induction flds arbitrary: i as names nf) (auto simp: Let_def split: option.splits)

lemma createNames_Inr: "\<exists>nf ks. createNames flds = Inr (nf, ks)"
proof -
  obtain as names nf where l: "createNames_loop flds 0 AtomStyleFull [] Map.empty = (as, names, nf)"
    by (cases "createNames_loop flds 0 AtomStyleFull [] Map.empty") auto
  have "list_all IsName names"
    using createNames_loop_names[of "[]" flds 0 AtomStyleFull Map.empty] l by simp
  then obtain m' where "MakeKeys_loop names \<lparr>mk_k = Map.empty, mk_as = as\<rparr> = Inr m'"
    using MakeKeys_loop_Inr by blast
  then show ?thesis by (simp add: createNames_def l MakeKeys_def)
qed

text \<open>
  Claim C9.  On an input without any line, and a reader that ends without an error,
  \<^verbatim>\<open>Decoder.Decode\<close> returns \<^verbatim>\<open>nil\<close> at the first \<^verbatim>\<open>Scan\<close>, before the loop of \<^verbatim>\<open>Check\<close>
  and before the loop that assigns the fields: the struct is as it was, whatever its fields
  and their tags are.
\<close>

theorem Decode_empty_input:
  "Decode_keys pf od flds \<lparr>content = [], fails = False\<rparr> = Inr None
   \<and> Decoder_Decode pf od (PtrToStruct flds) \<lparr>content = [], fails = False\<rparr>
       = (None, PtrToStruct flds)"
proof -
  obtain nf ks where c: "createNames flds = Inr (nf, ks)" using createNames_Inr by blast
  have "Decode_keys pf od flds \<lparr>content = [], fails = False\<rparr> = Inr None"
    by (simp add: Decode_keys_def c headBody_def NewScanner_def Scan_def)
  then show ?thesis by (simp add: Decoder_Decode_def)
qed

subsection \<open>Decoder.Decode assigns after all checks (claim C10)\<close>





subsection \<open>Encode followed by Decode (claim C1)\<close>

text \<open>No row of an Atoms table is read without an error or a panic.\<close>

lemma AtomStyle_Decode_Inl: "\<exists>e. AtomStyle_Decode pf as f = Inl e"
  by (cases as)
     (auto simp: atomStyleFull_Decode_def atomStyleAtomic_Decode_def setInt_def
        split: prod.splits)

lemma decodeRows_no_row:
  assumes "\<And>l. \<exists>e. row l = Inl e"
  shows "fst (snd (decodeRows row i n v r)) = v"
proof -
  obtain b r' where s: "Scan r = (b, r')" by (cases "Scan r")
  obtain e where e: "row (line r') = Inl e" using assms by blast
  show ?thesis
    by (subst decodeRows.simps) (simp add: s e split: bool.splits)
qed

text \<open>
  Whatever the lines are, \<^verbatim>\<open>Atoms.Decode\<close> leaves the table as it was or empty: no row is
  ever stored.
\<close>

lemma Atoms_Decode_stores_no_atom:
  "a_v (fst (snd (Atoms_Decode pf ks a s r))) = a_v a
   \<or> a_v (fst (snd (Atoms_Decode pf ks a s r))) = Some []"
proof -
  have "\<And>l. \<exists>e. Atoms_row pf (a_atomStyle a) l = Inl e"
    by (simp add: Atoms_row_def AtomStyle_Decode_Inl)
  from decodeRows_no_row[of "Atoms_row pf (a_atomStyle a)", OF this]
  have "\<And>i n v r e v' r'.
          decodeRows (Atoms_row pf (a_atomStyle a)) i n v r = (e, v', r') \<Longrightarrow> v' = v"
    by (metis fst_conv snd_conv)
  then show ?thesis
    by (auto simp: Atoms_Decode_def Let_def split: option.splits prod.splits bool.splits sum.splits)
qed

text \<open>
  Claim C1 fails on the code, by the defect of claim C2.  The struct has the field
  \<^verbatim>\<open>atom types\<close> with the value 1 and the field \<^verbatim>\<open>Atoms, full\<close> with one atom, number 1, of
  molecule 1 and type 1, its charge and its three coordinates all 0.5 (the float64 with the
  bits 3FE0000000000000, which \<^verbatim>\<open>%g\<close> prints as \<^verbatim>\<open>0.5\<close>).  These values pass \<^verbatim>\<open>Check\<close>,
  and \<^verbatim>\<open>Encoder.Encode\<close> writes them.  \<^verbatim>\<open>Decoder.Decode\<close> of the text written, into a struct
  of the same type, panics in the \<^verbatim>\<open>Decode\<close> of the atom style at the row of the atom, and
  the struct receives nothing.  Each line of the text is matched by one Key only, so the
  orders of the visits play no part.
\<close>

theorem Encode_then_Decode_Atoms_panics:
  assumes "fg 0x3FE0000000000000 = ''0.5''"
  shows "Encoder_Encode fg
     \<lparr>fieldsOrd = [NameAtomTypes, NameAtoms], keysOrd = [NameAtoms, NameAtomsNbr, NameAtomTypes],
      headOrd = (\<lambda>n. [NameAtomsNbr, NameAtomTypes]), bodyOrd = (\<lambda>n. [NameAtoms])\<rparr>
     (PtrToStruct
       [fieldOf NameAtomTypes (VInt 1),
        fieldOf ''Atoms, full''
          (VAtoms (Some [(1, \<lparr>MolTag = 1, AtomType = 1, Q = 0x3FE0000000000000,
             X = 0x3FE0000000000000, Y = 0x3FE0000000000000, Z = 0x3FE0000000000000,
             N = False, NX = 0, NY = 0, NZ = 0\<rparr>)]))])
     \<lparr>written = [], room = None\<rparr>
   = (None,
      \<lparr>written = NL @ NL @ ''1 atoms'' @ NL @ NL @ ''1 atom types'' @ NL @ NL @ ''Atoms'' @ NL @ NL
                  @ ''1 1 1 0.5 0.5 0.5 0.5'' @ NL @ NL,
       room = None\<rparr>)
   \<and> Decoder_Decode pf
     \<lparr>fieldsOrd = [NameAtomTypes, NameAtoms], keysOrd = [NameAtoms, NameAtomsNbr, NameAtomTypes],
      headOrd = (\<lambda>n. [NameAtomsNbr, NameAtomTypes]), bodyOrd = (\<lambda>n. [NameAtoms])\<rparr>
     (PtrToStruct [fieldOf NameAtomTypes (VInt 0), fieldOf ''Atoms, full'' (VAtoms None)])
     \<lparr>content = NL @ NL @ ''1 atoms'' @ NL @ NL @ ''1 atom types'' @ NL @ NL @ ''Atoms'' @ NL @ NL
                  @ ''1 1 1 0.5 0.5 0.5 0.5'' @ NL @ NL,
      fails = False\<rparr>
   = (Some nilDeref,
      PtrToStruct [fieldOf NameAtomTypes (VInt 0), fieldOf ''Atoms, full'' (VAtoms None)])"
proof (rule conjI)
  show "Encoder_Encode fg
     \<lparr>fieldsOrd = [NameAtomTypes, NameAtoms], keysOrd = [NameAtoms, NameAtomsNbr, NameAtomTypes],
      headOrd = (\<lambda>n. [NameAtomsNbr, NameAtomTypes]), bodyOrd = (\<lambda>n. [NameAtoms])\<rparr>
     (PtrToStruct
       [fieldOf NameAtomTypes (VInt 1),
        fieldOf ''Atoms, full''
          (VAtoms (Some [(1, \<lparr>MolTag = 1, AtomType = 1, Q = 0x3FE0000000000000,
             X = 0x3FE0000000000000, Y = 0x3FE0000000000000, Z = 0x3FE0000000000000,
             N = False, NX = 0, NY = 0, NZ = 0\<rparr>)]))])
     \<lparr>written = [], room = None\<rparr>
   = (None,
      \<lparr>written = NL @ NL @ ''1 atoms'' @ NL @ NL @ ''1 atom types'' @ NL @ NL @ ''Atoms'' @ NL @ NL
                  @ ''1 1 1 0.5 0.5 0.5 0.5'' @ NL @ NL,
       room = None\<rparr>)"
    using assms by (simp add: mk_simps str_simps set_simps chk_simps enc_simps)
next
  show "Decoder_Decode pf
     \<lparr>fieldsOrd = [NameAtomTypes, NameAtoms], keysOrd = [NameAtoms, NameAtomsNbr, NameAtomTypes],
      headOrd = (\<lambda>n. [NameAtomsNbr, NameAtomTypes]), bodyOrd = (\<lambda>n. [NameAtoms])\<rparr>
     (PtrToStruct [fieldOf NameAtomTypes (VInt 0), fieldOf ''Atoms, full'' (VAtoms None)])
     \<lparr>content = NL @ NL @ ''1 atoms'' @ NL @ NL @ ''1 atom types'' @ NL @ NL @ ''Atoms'' @ NL @ NL
                  @ ''1 1 1 0.5 0.5 0.5 0.5'' @ NL @ NL,
      fails = False\<rparr>
   = (Some nilDeref,
      PtrToStruct [fieldOf NameAtomTypes (VInt 0), fieldOf ''Atoms, full'' (VAtoms None)])"
    by (simp add: str_simps mk_simps scan_simps kw_simps dec_simps nilDeref_def)
qed

text \<open>The same with a printer that prints every float as \<^verbatim>\<open>0.5\<close> and a parser that accepts all.\<close>

theorem Encode_then_Decode_Atoms_panics_witness:
  "fst (Encoder_Encode (\<lambda>x. ''0.5'')
     \<lparr>fieldsOrd = [NameAtomTypes, NameAtoms], keysOrd = [NameAtoms, NameAtomsNbr, NameAtomTypes],
      headOrd = (\<lambda>n. [NameAtomsNbr, NameAtomTypes]), bodyOrd = (\<lambda>n. [NameAtoms])\<rparr>
     (PtrToStruct
       [fieldOf NameAtomTypes (VInt 1),
        fieldOf ''Atoms, full''
          (VAtoms (Some [(1, \<lparr>MolTag = 1, AtomType = 1, Q = 0x3FE0000000000000,
             X = 0x3FE0000000000000, Y = 0x3FE0000000000000, Z = 0x3FE0000000000000,
             N = False, NX = 0, NY = 0, NZ = 0\<rparr>)]))])
     \<lparr>written = [], room = None\<rparr>) = None
   \<and> fst (Decoder_Decode (\<lambda>s. (0, True))
     \<lparr>fieldsOrd = [NameAtomTypes, NameAtoms], keysOrd = [NameAtoms, NameAtomsNbr, NameAtomTypes],
      headOrd = (\<lambda>n. [NameAtomsNbr, NameAtomTypes]), bodyOrd = (\<lambda>n. [NameAtoms])\<rparr>
     (PtrToStruct [fieldOf NameAtomTypes (VInt 0), fieldOf ''Atoms, full'' (VAtoms None)])
     \<lparr>content = NL @ NL @ ''1 atoms'' @ NL @ NL @ ''1 atom types'' @ NL @ NL @ ''Atoms'' @ NL @ NL
                  @ ''1 1 1 0.5 0.5 0.5 0.5'' @ NL @ NL,
      fails = False\<rparr>) = Some nilDeref"
  using Encode_then_Decode_Atoms_panics[of "\<lambda>x. ''0.5''" "\<lambda>s. (0, True)"]
  by simp

subsection \<open>Comments in the rows of the tables (claim C5)\<close>

lemma IndexRune_append:
  "r \<notin> set l \<Longrightarrow> IndexRune (l @ r # c) r = Some (length l)"
  by (induction l) auto

lemma delComments_append: "CHR ''#'' \<notin> set l \<Longrightarrow> delComments (l @ CHR ''#'' # c) = l"
  by (simp add: delComments_def IndexRune_append)

text \<open>
  \<^verbatim>\<open>Coeffs.Decode\<close> and \<^verbatim>\<open>Atoms.Decode\<close> read a row as if the comment were not there.
\<close>

lemma Coeffs_Atoms_rows_drop_comment:
  assumes "CHR ''#'' \<notin> set l"
  shows "Coeffs_row pf (l @ CHR ''#'' # c) = Coeffs_row pf l"
    and "Atoms_row pf as (l @ CHR ''#'' # c) = Atoms_row pf as l"
proof -
  have "delComments l = l"
    using assms by (induction l) (auto simp: delComments_def split: option.splits)
  then show "Coeffs_row pf (l @ CHR ''#'' # c) = Coeffs_row pf l"
    and "Atoms_row pf as (l @ CHR ''#'' # c) = Atoms_row pf as l"
    using assms by (simp_all add: Coeffs_row_def Atoms_row_def delComments_append)
qed

text \<open>
  Claim C5 fails on the code.  \<^verbatim>\<open>Links.Decode\<close> and \<^verbatim>\<open>Masses.Decode\<close> split the line as it
  is, without \<^verbatim>\<open>delComments\<close>, which \<^verbatim>\<open>Coeffs.Decode\<close> and \<^verbatim>\<open>Atoms.Decode\<close> call.  The row
  \<^verbatim>\<open>1 1 1 2#c\<close> of a Bonds table, whose fields before the \<^verbatim>\<open>#\<close> are a well-formed bond,
  is refused with the error of \<^verbatim>\<open>strconv.Atoi\<close> on the field \<^verbatim>\<open>2#c\<close>, by the row alone and
  by \<^verbatim>\<open>Links.Decode\<close> on a table of one bond; without the comment the row is read.
  \<^verbatim>\<open>Masses.Decode\<close> gives the field \<^verbatim>\<open>1.0#c\<close> with its comment to \<^verbatim>\<open>strconv.ParseFloat\<close>,
  where \<^verbatim>\<open>Coeffs.Decode\<close> gives it \<^verbatim>\<open>1.0\<close>.
\<close>

theorem Links_and_Masses_Decode_keep_comments:
  "Links_row 4 ''1 1 1 2#c'' = Inl (Wrapf ''strconv.Atoi link: %w'' StrconvErr)
   \<and> Links_row 4 ''1 1 1 2'' = Inr (1, \<lparr>link_typ = 1, link_links = [1, 2]\<rparr>)
   \<and> fst (Links_Decode [NameBondsNbr \<mapsto> KHeader ((NewHeader NameBondsNbr)\<lparr>h_v := 1\<rparr>)]
            ((NewLinks NameBonds 2)\<lparr>l_nbr := Some NameBondsNbr\<rparr>) NameBonds
            \<lparr>toks = [[], ''1 1 1 2#c''], bad = False, line = NameBonds, err = False\<rparr>)
       = Some (Wrapf ''strconv.Atoi link: %w'' StrconvErr)
   \<and> Masses_row pf ''1 1.0#c''
       = (if snd (pf ''1.0#c'') then Inr (1, fst (pf ''1.0#c''))
          else Inl (Wrapf ''strconv.ParseFloat: %w'' StrconvErr))
   \<and> Coeffs_row pf ''1 1.0#c''
       = (if snd (pf ''1.0'') then Inr (1, [fst (pf ''1.0'')])
          else Inl (Wrapf ''strconv.ParseFloat: %w'' StrconvErr))"
  by (simp add: str_simps dec_simps scan_simps NewLinks_def NewHeader_def IndexRune.simps
      split: prod.splits)

subsection \<open>Set and SetKeysVal in Encoder.Encode (claim C6)\<close>




end
